theory Spec2Isabelle
  imports Complex_Main
begin

section \<open>Numbers and display rounding\<close>

text \<open>
  The compliance calculator works on JavaScript numbers. They are modelled as
  real numbers, so every arithmetic step below is exact; the binary rounding of
  IEEE doubles is outside the model. The only divisions of the calculator are by
  the target intensity, by the number of vessels, by the vessel's own intensity
  and by the pool's total fuel consumption; wherever a divisor can be zero in the
  program (where JavaScript yields NaN or Infinity and HOL yields 0) the theorems
  carry a hypothesis that excludes it. A value that the program rounds for
  display can fall on the other side of a rounding tie in binary arithmetic than
  in exact arithmetic; for that reason the general theorems relate a returned
  value that was computed by a multiplication or a division to its unrounded
  value by a bound (less than one unit of the displayed precision), and state
  equalities only between sums of values that are already rounded to cents.

  \<^verbatim>\<open>Number(v.toFixed(d))\<close> rounds \<open>v\<close> to \<open>d\<close> decimals, half away from zero:
  \<^verbatim>\<open>toFixed\<close> takes the sign off, picks the integer \<open>n\<close> with \<open>n / 10^d\<close> nearest
  to \<open>\<bar>v\<bar>\<close> (the larger one on a tie) and prints it. From \<open>10^21\<close> on
  \<^verbatim>\<open>toFixed\<close> prints the number itself; every double of that size is an integer,
  on which the rounding is the identity, so the one formula covers that case.
\<close>

definition toFixed :: "nat \<Rightarrow> real \<Rightarrow> real" where
  "toFixed d v = sgn v * (of_int \<lfloor>\<bar>v\<bar> * 10 ^ d + 1 / 2\<rfloor> / 10 ^ d)"

text \<open>Where the program keeps the string that \<^verbatim>\<open>toFixed\<close> returns (it does not wrap
  it in \<^verbatim>\<open>Number\<close>), the string is represented by its digits count and the number
  it was printed from.\<close>

datatype fixedString = FixedString nat real

datatype numOrString = NumberValue real | StringValue fixedString

section \<open>Configuration of the calculator (the constructor)\<close>

definition complianceTargets :: "int \<rightharpoonup> real" where
  "complianceTargets =
     [2025 \<mapsto> 0.02, 2026 \<mapsto> 0.02, 2027 \<mapsto> 0.02, 2028 \<mapsto> 0.02,
      2029 \<mapsto> 0.02, 2030 \<mapsto> 0.06, 2031 \<mapsto> 0.06, 2032 \<mapsto> 0.06]"

definition referenceGHGIntensity :: real where
  "referenceGHGIntensity = 91.16"

definition penaltyRates :: "int \<rightharpoonup> real" where
  "penaltyRates =
     [2025 \<mapsto> 640, 2026 \<mapsto> 640, 2027 \<mapsto> 640, 2028 \<mapsto> 640,
      2029 \<mapsto> 640, 2030 \<mapsto> 640]"

definition bankingLimit :: real where
  "bankingLimit = 0.05"

definition borrowingLimit :: real where
  "borrowingLimit = 0.05"

text \<open>A table lookup used as a condition: a missing key (\<^verbatim>\<open>undefined\<close>) and the
  number zero are both falsy.\<close>

definition truthy :: "real option \<Rightarrow> bool" where
  "truthy x = (case x of None \<Rightarrow> False | Some n \<Rightarrow> n \<noteq> 0)"

text \<open>\<^verbatim>\<open>this.penaltyRates[year] || this.penaltyRates[2030]\<close>\<close>

definition penaltyRate :: "int \<Rightarrow> real" where
  "penaltyRate year =
     (if truthy (penaltyRates year) then the (penaltyRates year)
      else the (penaltyRates 2030))"

section \<open>calculateComplianceScore\<close>

definition bonusBranch :: "real \<Rightarrow> real \<Rightarrow> real" where
  "bonusBranch actualIntensity targetIntensity =
     (let surplusPercent = (targetIntensity - actualIntensity) / targetIntensity
      in min 100 (100 + surplusPercent * 20))"

definition penaltyBranch :: "real \<Rightarrow> real \<Rightarrow> real" where
  "penaltyBranch actualIntensity targetIntensity =
     (let deficitPercent = (actualIntensity - targetIntensity) / targetIntensity
      in max 0 (100 - deficitPercent * 100))"

definition calculateComplianceScore :: "real \<Rightarrow> real \<Rightarrow> real" where
  "calculateComplianceScore actualIntensity targetIntensity =
     (if actualIntensity \<le> targetIntensity
      then bonusBranch actualIntensity targetIntensity
      else penaltyBranch actualIntensity targetIntensity)"

section \<open>Data\<close>

text \<open>A vessel is an object with the two numeric properties the calculator reads
  and any further own properties (name, imo, type, pool, owner, \<dots>), which the
  calculator only copies.\<close>

datatype jsval = JNum real | JStr string | JBool bool

record vessel =
  fuelConsumption :: real
  ghgIntensity :: real
  props :: "string \<rightharpoonup> jsval"

text \<open>The object returned by \<^verbatim>\<open>calculateVesselCompliance\<close>: the spread of the vessel
  followed by the computed properties.\<close>

record vesselResult = vessel +
  complianceYear :: int
  targetIntensity :: real
  deviation :: real
  deviationPercent :: real
  energyDeficit :: real
  energySurplus :: real
  complianceBalance :: real
  potentialPenalty :: real
  status :: string
  complianceScore :: real

text \<open>The property names written after the spread; a property of the vessel with
  one of these names is overwritten.\<close>

definition computedKeys :: "string set" where
  "computedKeys =
     {''complianceYear'', ''targetIntensity'', ''deviation'', ''deviationPercent'',
      ''energyDeficit'', ''energySurplus'', ''complianceBalance'', ''potentialPenalty'',
      ''status'', ''complianceScore''}"

datatype error = InvalidYear int

section \<open>calculateVesselCompliance\<close>

text \<open>The local constants of the function, before any rounding, as functions of
  the target intensity of the year and the vessel.\<close>

definition targetIntensityFor :: "real \<Rightarrow> real" where
  "targetIntensityFor target = referenceGHGIntensity * (1 - target)"

definition deviationOf :: "real \<Rightarrow> ('a vessel_scheme) \<Rightarrow> real" where
  "deviationOf ti v = ti - ghgIntensity v"

definition deviationPercentOf :: "real \<Rightarrow> ('a vessel_scheme) \<Rightarrow> real" where
  "deviationPercentOf ti v = (deviationOf ti v / ti) * 100"

definition complianceBalanceOf :: "real \<Rightarrow> ('a vessel_scheme) \<Rightarrow> real" where
  "complianceBalanceOf ti v = (deviationOf ti v * fuelConsumption v) / 1000000"

definition statusOf :: "real \<Rightarrow> ('a vessel_scheme) \<Rightarrow> string" where
  "statusOf ti v =
     (if complianceBalanceOf ti v < 0 then ''non-compliant'' else ''compliant'')"

definition energyDeficitOf :: "real \<Rightarrow> ('a vessel_scheme) \<Rightarrow> real" where
  "energyDeficitOf ti v = max 0 (deviationOf ti v * fuelConsumption v)"

definition energySurplusOf :: "real \<Rightarrow> ('a vessel_scheme) \<Rightarrow> real" where
  "energySurplusOf ti v = max 0 (- deviationOf ti v * fuelConsumption v)"

definition potentialPenaltyOf :: "int \<Rightarrow> real \<Rightarrow> ('a vessel_scheme) \<Rightarrow> real" where
  "potentialPenaltyOf year ti v =
     (if complianceBalanceOf ti v < 0
      then \<bar>complianceBalanceOf ti v\<bar> * penaltyRate year / 1000000
      else 0)"

text \<open>The returned object.\<close>

definition vesselOutput :: "int \<Rightarrow> real \<Rightarrow> vessel \<Rightarrow> vesselResult" where
  "vesselOutput year ti v =
     \<lparr> fuelConsumption = fuelConsumption v,
       ghgIntensity = ghgIntensity v,
       props = props v |` (- computedKeys),
       complianceYear = year,
       targetIntensity = toFixed 2 ti,
       deviation = toFixed 3 (deviationOf ti v),
       deviationPercent = toFixed 2 (deviationPercentOf ti v),
       energyDeficit = toFixed 0 (energyDeficitOf ti v),
       energySurplus = toFixed 0 (energySurplusOf ti v),
       complianceBalance = toFixed 2 (complianceBalanceOf ti v),
       potentialPenalty = toFixed 2 (potentialPenaltyOf year ti v),
       status = statusOf ti v,
       complianceScore = calculateComplianceScore (ghgIntensity v) ti \<rparr>"

definition calculateVesselCompliance :: "vessel \<Rightarrow> int \<Rightarrow> error + vesselResult" where
  "calculateVesselCompliance v year =
     (if \<not> truthy (complianceTargets year) then Inl (InvalidYear year)
      else
        let target = the (complianceTargets year);
            ti = targetIntensityFor target
        in Inr (vesselOutput year ti v))"

section \<open>calculatePoolCompliance\<close>

text \<open>The running totals of the loop over the vessels.\<close>

record poolAcc =
  totalEnergyConsumption :: real
  totalEmissions :: real
  totalEnergyDeficit :: real
  totalEnergySurplus :: real
  totalComplianceBalance :: real
  totalPotentialPenalty :: real
  compliantCount :: nat
  nonCompliantCount :: nat
  totalDeficitFromVessels :: real
  totalSurplusFromVessels :: real

definition initialAcc :: poolAcc where
  "initialAcc =
     \<lparr> totalEnergyConsumption = 0, totalEmissions = 0, totalEnergyDeficit = 0,
       totalEnergySurplus = 0, totalComplianceBalance = 0, totalPotentialPenalty = 0,
       compliantCount = 0, nonCompliantCount = 0, totalDeficitFromVessels = 0,
       totalSurplusFromVessels = 0 \<rparr>"

text \<open>The body of the callback of \<^verbatim>\<open>vessels.map\<close>, after the vessel's result has
  been computed: the totals are fed from the vessel's two inputs and from the
  properties of the returned (rounded) result object.\<close>

definition accumulate :: "poolAcc \<Rightarrow> vessel \<Rightarrow> vesselResult \<Rightarrow> poolAcc" where
  "accumulate acc v result =
     \<lparr> totalEnergyConsumption = totalEnergyConsumption acc + fuelConsumption v,
       totalEmissions = totalEmissions acc + fuelConsumption v * ghgIntensity v,
       totalEnergyDeficit = totalEnergyDeficit acc + energyDeficit result,
       totalEnergySurplus = totalEnergySurplus acc + energySurplus result,
       totalComplianceBalance = totalComplianceBalance acc + complianceBalance result,
       totalPotentialPenalty = totalPotentialPenalty acc + potentialPenalty result,
       compliantCount =
         (if status result = ''compliant'' then compliantCount acc + 1
          else compliantCount acc),
       nonCompliantCount =
         (if status result = ''compliant'' then nonCompliantCount acc
          else nonCompliantCount acc + 1),
       totalDeficitFromVessels =
         (if complianceBalance result < 0
          then totalDeficitFromVessels acc + \<bar>complianceBalance result\<bar>
          else totalDeficitFromVessels acc),
       totalSurplusFromVessels =
         (if complianceBalance result < 0 then totalSurplusFromVessels acc
          else if complianceBalance result > 0
          then totalSurplusFromVessels acc + complianceBalance result
          else totalSurplusFromVessels acc) \<rparr>"

text \<open>\<^verbatim>\<open>vessels.map(vessel => ...)\<close>: an exception thrown for one vessel ends the
  loop and the whole call.\<close>

fun mapVessels ::
  "int \<Rightarrow> vessel list \<Rightarrow> poolAcc \<Rightarrow> vesselResult list \<Rightarrow> error + (poolAcc \<times> vesselResult list)"
where
  "mapVessels year [] acc vesselResults = Inr (acc, vesselResults)"
| "mapVessels year (v # rest) acc vesselResults =
     (case calculateVesselCompliance v year of
        Inl e \<Rightarrow> Inl e
      | Inr result \<Rightarrow> mapVessels year rest (accumulate acc v result) (vesselResults @ [result]))"

text \<open>The pool-level local constants computed after the loop.\<close>

definition poolAverageIntensityOf :: "poolAcc \<Rightarrow> real" where
  "poolAverageIntensityOf acc = totalEmissions acc / totalEnergyConsumption acc"

definition poolCompliantOf :: "poolAcc \<Rightarrow> bool" where
  "poolCompliantOf acc = (totalComplianceBalance acc \<ge> 0)"

definition netEnergyDeficitOf :: "poolAcc \<Rightarrow> real" where
  "netEnergyDeficitOf acc = max 0 (totalEnergyDeficit acc - totalEnergySurplus acc)"

definition netEnergySurplusOf :: "poolAcc \<Rightarrow> real" where
  "netEnergySurplusOf acc = max 0 (totalEnergySurplus acc - totalEnergyDeficit acc)"

definition poolComplianceScoreOf :: "poolAcc \<Rightarrow> real \<Rightarrow> real" where
  "poolComplianceScoreOf acc poolTarget =
     calculateComplianceScore (poolAverageIntensityOf acc) poolTarget"

record poolSummary =
  totalVessels :: nat
  compliantVessels :: nat
  nonCompliantVessels :: nat
  complianceRate :: real
  totalEnergyConsumption :: real
  totalEmissions :: real
  poolEnergyDeficit :: real
  poolEnergySurplus :: real
  netEnergyDeficit :: real
  netEnergySurplus :: real
  poolComplianceBalance :: real
  poolComplianceDeficit :: real
  poolComplianceSurplus :: real
  poolAverageIntensity :: real
  poolTargetIntensity :: real
  poolDeviation :: real
  poolCompliant :: bool
  poolComplianceScore :: real
  poolPotentialPenalty :: real
  totalPotentialPenalty :: real
  totalVesselPenalties :: "real option"
  complianceYear :: int
  reductionTarget :: numOrString

record poolResult =
  vessels :: "vesselResult list"
  summary :: poolSummary

definition poolOutput :: "nat \<Rightarrow> int \<Rightarrow> poolAcc \<Rightarrow> vesselResult list \<Rightarrow> poolResult" where
  "poolOutput n year acc vesselResults =
     (let target = the (complianceTargets year);
          poolTarget = targetIntensityFor target
      in
      \<lparr> vessels = vesselResults,
        summary =
          \<lparr> totalVessels = n,
            compliantVessels = compliantCount acc,
            nonCompliantVessels = nonCompliantCount acc,
            complianceRate = toFixed 1 ((real (compliantCount acc) / real n) * 100),
            totalEnergyConsumption = toFixed 0 (poolAcc.totalEnergyConsumption acc),
            totalEmissions = toFixed 0 (poolAcc.totalEmissions acc),
            poolEnergyDeficit = toFixed 2 (totalEnergyDeficit acc / 1000000),
            poolEnergySurplus = toFixed 2 (totalEnergySurplus acc / 1000000),
            netEnergyDeficit = toFixed 2 (netEnergyDeficitOf acc / 1000000),
            netEnergySurplus = toFixed 2 (netEnergySurplusOf acc / 1000000),
            poolComplianceBalance = toFixed 2 (totalComplianceBalance acc),
            poolComplianceDeficit = toFixed 2 (totalDeficitFromVessels acc),
            poolComplianceSurplus = toFixed 2 (totalSurplusFromVessels acc),
            poolAverageIntensity = toFixed 2 (poolAverageIntensityOf acc),
            poolTargetIntensity = toFixed 2 poolTarget,
            poolDeviation = toFixed 2 (poolAverageIntensityOf acc - poolTarget),
            poolCompliant = poolCompliantOf acc,
            poolComplianceScore = toFixed 1 (poolComplianceScoreOf acc poolTarget),
            poolPotentialPenalty =
              (if totalComplianceBalance acc < 0
               then toFixed 2 (\<bar>totalComplianceBalance acc\<bar> * penaltyRate year / 1000000)
               else 0),
            totalPotentialPenalty = toFixed 2 (poolAcc.totalPotentialPenalty acc),
            totalVesselPenalties = None,
            complianceYear = year,
            reductionTarget = NumberValue (toFixed 1 (target * 100)) \<rparr> \<rparr>)"

definition getEmptyPoolResult :: "int \<Rightarrow> poolResult" where
  "getEmptyPoolResult year =
     (let target = (if truthy (complianceTargets year) then the (complianceTargets year)
                    else the (complianceTargets 2025))
      in
      \<lparr> vessels = [],
        summary =
          \<lparr> totalVessels = 0,
            compliantVessels = 0,
            nonCompliantVessels = 0,
            complianceRate = 0,
            totalEnergyConsumption = 0,
            totalEmissions = 0,
            poolEnergyDeficit = 0,
            poolEnergySurplus = 0,
            netEnergyDeficit = 0,
            netEnergySurplus = 0,
            poolComplianceBalance = 0,
            poolComplianceDeficit = 0,
            poolComplianceSurplus = 0,
            poolAverageIntensity = 0,
            poolTargetIntensity = referenceGHGIntensity * (1 - target),
            poolDeviation = 0,
            poolCompliant = True,
            poolComplianceScore = 0,
            poolPotentialPenalty = 0,
            totalPotentialPenalty = 0,
            totalVesselPenalties = Some 0,
            complianceYear = year,
            reductionTarget = StringValue (FixedString 1 (target * 100)) \<rparr> \<rparr>)"

definition calculatePoolCompliance :: "vessel list \<Rightarrow> int \<Rightarrow> error + poolResult" where
  "calculatePoolCompliance vs year =
     (if vs = [] then Inr (getEmptyPoolResult year)
      else
        case mapVessels year vs initialAcc [] of
          Inl e \<Rightarrow> Inl e
        | Inr (acc, vesselResults) \<Rightarrow> Inr (poolOutput (length vs) year acc vesselResults))"

section \<open>calculateBankingBorrowing\<close>

record bankingBorrowing =
  canBank :: bool
  bankingCapacity :: real
  canBorrow :: bool
  borrowingCapacity :: real
  bankingLimitMJ :: real
  borrowingLimitMJ :: real

definition calculateBankingBorrowing :: "vessel \<Rightarrow> int \<Rightarrow> error + bankingBorrowing" where
  "calculateBankingBorrowing v year =
     (case calculateVesselCompliance v year of
        Inl e \<Rightarrow> Inl e
      | Inr compliance \<Rightarrow>
          let banking =
                (if energySurplus compliance > 0
                 then min (energySurplus compliance) (fuelConsumption v * bankingLimit)
                 else 0);
              borrowing =
                (if energyDeficit compliance > 0
                 then min (energyDeficit compliance) (fuelConsumption v * borrowingLimit)
                 else 0)
          in Inr \<lparr> canBank = banking > 0,
                   bankingCapacity = toFixed 0 banking,
                   canBorrow = borrowing > 0,
                   borrowingCapacity = toFixed 0 borrowing,
                   bankingLimitMJ = toFixed 0 (fuelConsumption v * bankingLimit),
                   borrowingLimitMJ = toFixed 0 (fuelConsumption v * borrowingLimit) \<rparr>)"

section \<open>suggestImprovements\<close>

text \<open>A suggestion is a fixed text, or the line
  \<^verbatim>\<open>Target: Reduce GHG intensity by ${p.toFixed(1)}% to ${t.toFixed(2)} gCO2e/MJ\<close>,
  kept as its two printed numbers.\<close>

datatype suggestion = Plain string | TargetLine fixedString fixedString

record improvement =
  status :: string
  requiredReduction :: "fixedString option"
  requiredReductionPercent :: "fixedString option"
  targetIntensity :: "fixedString option"
  suggestions :: "suggestion list"

definition tierSuggestions :: "real \<Rightarrow> suggestion list" where
  "tierSuggestions percent =
     (if percent \<le> 5 then
        [Plain ''Consider operational efficiency improvements (route optimization, speed management)'',
         Plain ''Implement energy management systems'']
      else if percent \<le> 15 then
        [Plain ''Consider alternative fuel blending (biofuels, e-fuels)'',
         Plain ''Upgrade to more efficient marine engines'',
         Plain ''Install energy recovery systems'']
      else
        [Plain ''Significant fuel transition required (ammonia, hydrogen, methanol)'',
         Plain ''Consider vessel retrofit or replacement'',
         Plain ''Implement comprehensive decarbonization strategy''])"

definition suggestImprovements :: "vessel \<Rightarrow> int \<Rightarrow> error + improvement" where
  "suggestImprovements v year =
     (case calculateVesselCompliance v year of
        Inl e \<Rightarrow> Inl e
      | Inr compliance \<Rightarrow>
          if vesselResult.status compliance = ''compliant'' then
            Inr \<lparr> status = ''compliant'',
                  requiredReduction = None,
                  requiredReductionPercent = None,
                  targetIntensity = None,
                  suggestions =
                    [Plain ''Vessel is already compliant. Consider maintaining current fuel efficiency.''] \<rparr>
          else
            let target = the (complianceTargets year);
                ti = targetIntensityFor target;
                reduction = ghgIntensity v - ti;
                percent = (reduction / ghgIntensity v) * 100
            in Inr \<lparr> status = vesselResult.status compliance,
                     requiredReduction = Some (FixedString 2 reduction),
                     requiredReductionPercent = Some (FixedString 1 percent),
                     targetIntensity = Some (FixedString 2 ti),
                     suggestions =
                       tierSuggestions percent
                       @ [TargetLine (FixedString 1 percent) (FixedString 2 ti)] \<rparr>)"

section \<open>calculateComplianceTrend\<close>

record trendPoint =
  year :: int
  complianceRate :: real
  poolCompliant :: bool
  totalPenalty :: real
  reductionTarget :: numOrString
  poolAverageIntensity :: real
  poolTargetIntensity :: real

text \<open>The \<^verbatim>\<open>for\<close> loop from \<open>startYear\<close> to \<open>endYear\<close>; \<open>y\<close> is the loop variable and
  \<open>trendData\<close> the array built so far.\<close>

function trendLoop ::
  "vessel list \<Rightarrow> int \<Rightarrow> int \<Rightarrow> trendPoint list \<Rightarrow> error + trendPoint list"
where
  "trendLoop vs y endYear trendData =
     (if y \<le> endYear then
        (if truthy (complianceTargets y) then
           (case calculatePoolCompliance vs y of
              Inl e \<Rightarrow> Inl e
            | Inr compliance \<Rightarrow>
                trendLoop vs (y + 1) endYear
                  (trendData @
                   [\<lparr> year = y,
                      complianceRate = poolSummary.complianceRate (summary compliance),
                      poolCompliant = poolSummary.poolCompliant (summary compliance),
                      totalPenalty = poolSummary.totalPotentialPenalty (summary compliance),
                      reductionTarget = poolSummary.reductionTarget (summary compliance),
                      poolAverageIntensity = poolSummary.poolAverageIntensity (summary compliance),
                      poolTargetIntensity = poolSummary.poolTargetIntensity (summary compliance) \<rparr>]))
         else trendLoop vs (y + 1) endYear trendData)
      else Inr trendData)"
  by pat_completeness auto
termination
  by (relation "measure (\<lambda>(vs, y, endYear, trendData). nat (endYear + 1 - y))") auto

definition calculateComplianceTrend :: "vessel list \<Rightarrow> int \<Rightarrow> int \<Rightarrow> error + trendPoint list" where
  "calculateComplianceTrend vs startYear endYear = trendLoop vs startYear endYear []"

section \<open>Objects and references\<close>

text \<open>
  The calculator receives references to the caller's vessel objects. To state
  what a call does to those objects, the typed functions above are placed in a
  heap of JavaScript objects: an object is a finite map from property names to
  values, a reference is an index into the heap, and an object literal allocates
  at the end of the heap. No statement of the calculator assigns to a property of
  a vessel or to the vessel array, so the only heap effect of a call is the
  allocation of the result objects.
\<close>

type_synonym jsobject = "string \<rightharpoonup> jsval"

type_synonym heap = "jsobject list"

text \<open>The typed view of a vessel object: its two numeric properties, with all
  its own properties kept for the spread. An object without them is outside
  the typed model.\<close>

definition readVessel :: "jsobject \<Rightarrow> vessel option" where
  "readVessel obj =
     (case (obj ''fuelConsumption'', obj ''ghgIntensity'') of
        (Some (JNum f), Some (JNum g)) \<Rightarrow>
          Some \<lparr> fuelConsumption = f, ghgIntensity = g, props = obj \<rparr>
      | _ \<Rightarrow> None)"

text \<open>The object literal \<^verbatim>\<open>{...vessel, complianceYear: year, ...}\<close>.\<close>

definition resultObject :: "vesselResult \<Rightarrow> jsobject" where
  "resultObject r =
     (props r)
       (''complianceYear'' \<mapsto> JNum (of_int (vesselResult.complianceYear r)),
        ''targetIntensity'' \<mapsto> JNum (vesselResult.targetIntensity r),
        ''deviation'' \<mapsto> JNum (deviation r),
        ''deviationPercent'' \<mapsto> JNum (deviationPercent r),
        ''energyDeficit'' \<mapsto> JNum (energyDeficit r),
        ''energySurplus'' \<mapsto> JNum (energySurplus r),
        ''complianceBalance'' \<mapsto> JNum (complianceBalance r),
        ''potentialPenalty'' \<mapsto> JNum (potentialPenalty r),
        ''status'' \<mapsto> JStr (vesselResult.status r),
        ''complianceScore'' \<mapsto> JNum (complianceScore r))"

definition calculateVesselCompliance_heap ::
  "heap \<Rightarrow> nat \<Rightarrow> int \<Rightarrow> ((error + nat) \<times> heap) option"
where
  "calculateVesselCompliance_heap h ref yr =
     (if ref < length h then
        (case readVessel (h ! ref) of
           None \<Rightarrow> None
         | Some v \<Rightarrow>
             (case calculateVesselCompliance v yr of
                Inl e \<Rightarrow> Some (Inl e, h)
              | Inr r \<Rightarrow> Some (Inr (length h), h @ [resultObject r])))
      else None)"

text \<open>\<^verbatim>\<open>calculatePoolCompliance\<close> on an array of references: the result objects of
  the vessels are allocated in order; the summary is returned by value.\<close>

definition readVessels :: "heap \<Rightarrow> nat list \<Rightarrow> vessel list option" where
  "readVessels h refs =
     (if list_all (\<lambda>ref. ref < length h \<and> readVessel (h ! ref) \<noteq> None) refs
      then Some (map (\<lambda>ref. the (readVessel (h ! ref))) refs)
      else None)"

definition calculatePoolCompliance_heap ::
  "heap \<Rightarrow> nat list \<Rightarrow> int \<Rightarrow> ((error + (nat list \<times> poolSummary)) \<times> heap) option"
where
  "calculatePoolCompliance_heap h refs yr =
     (case readVessels h refs of
        None \<Rightarrow> None
      | Some vs \<Rightarrow>
          (case calculatePoolCompliance vs yr of
             Inl e \<Rightarrow> Some (Inl e, h)
           | Inr res \<Rightarrow>
               Some (Inr ([length h ..< length h + length (vessels res)], summary res),
                     h @ map resultObject (vessels res))))"

section \<open>Sample data\<close>

text \<open>The second vessel of \<^verbatim>\<open>loadSampleData\<close> in the vessel manager (without its two
  date properties), as the object the calculator is handed.\<close>

definition nordicCarrier :: jsobject where
  "nordicCarrier =
     [''id'' \<mapsto> JNum 2, ''name'' \<mapsto> JStr ''Nordic Carrier'', ''imo'' \<mapsto> JStr ''2345678'',
      ''type'' \<mapsto> JStr ''bulk'', ''fuelConsumption'' \<mapsto> JNum 32000,
      ''ghgIntensity'' \<mapsto> JNum 93.85, ''status'' \<mapsto> JStr ''at-risk'',
      ''owner'' \<mapsto> JStr ''user1'', ''pool'' \<mapsto> JStr ''Pool A'']"

section \<open>Display rounding\<close>

lemma toFixed_zero: "toFixed d 0 = 0"
  by (simp add: toFixed_def)

lemma toFixed_nonneg_eq: "0 \<le> v \<Longrightarrow> toFixed d v = of_int \<lfloor>v * 10 ^ d + 1 / 2\<rfloor> / 10 ^ d"
  by (cases "v = 0") (simp_all add: toFixed_def)

lemma toFixed_neg_eq: "v < 0 \<Longrightarrow> toFixed d v = - (of_int \<lfloor>- v * 10 ^ d + 1 / 2\<rfloor> / 10 ^ d)"
  by (simp add: toFixed_def)

lemma toFixed_minus: "toFixed d (- v) = - toFixed d v"
  by (simp add: toFixed_def sgn_minus)

lemma toFixed_nonneg: "0 \<le> v \<Longrightarrow> 0 \<le> toFixed d v"
proof -
  assume v: "0 \<le> v"
  have "0 \<le> v * 10 ^ d + 1 / 2" using v by simp
  then have "0 \<le> \<lfloor>v * 10 ^ d + 1 / 2\<rfloor>" by simp
  then show ?thesis using v by (simp add: toFixed_nonneg_eq)
qed

lemma toFixed_nonpos: "v \<le> 0 \<Longrightarrow> toFixed d v \<le> 0"
  using toFixed_nonneg[of "- v" d] by (simp add: toFixed_minus)

lemma toFixed_mono_nonneg: "0 \<le> x \<Longrightarrow> x \<le> y \<Longrightarrow> toFixed d x \<le> toFixed d y"
proof -
  assume a: "0 \<le> x" "x \<le> y"
  have "x * 10 ^ d + 1 / 2 \<le> y * 10 ^ d + 1 / 2" using a by simp
  then have "\<lfloor>x * 10 ^ d + 1 / 2\<rfloor> \<le> \<lfloor>y * 10 ^ d + 1 / 2\<rfloor>" by (rule floor_mono)
  then show ?thesis using a by (simp add: toFixed_nonneg_eq divide_right_mono)
qed

lemma toFixed_mono: "x \<le> y \<Longrightarrow> toFixed d x \<le> toFixed d y"
proof -
  assume xy: "x \<le> y"
  consider "0 \<le> x" | "x < 0" "0 \<le> y" | "y < 0" using xy by linarith
  then show ?thesis
  proof cases
    case 1 then show ?thesis using xy by (rule toFixed_mono_nonneg)
  next
    case 2
    have "toFixed d x \<le> 0" using 2 by (intro toFixed_nonpos) simp
    moreover have "0 \<le> toFixed d y" using 2 by (intro toFixed_nonneg)
    ultimately show ?thesis by simp
  next
    case 3
    have "toFixed d (- y) \<le> toFixed d (- x)" using 3 xy by (intro toFixed_mono_nonneg) simp_all
    then show ?thesis by (simp add: toFixed_minus)
  qed
qed

lemma toFixed_of_int_div: "toFixed d (of_int k / 10 ^ d) = of_int k / 10 ^ d"
proof (cases "0 \<le> k")
  case True
  have "\<lfloor>(of_int k :: real) + 1 / 2\<rfloor> = k" by linarith
  then show ?thesis using True by (simp add: toFixed_nonneg_eq)
next
  case False
  have "\<lfloor>- (of_int k :: real) + 1 / 2\<rfloor> = - k" by linarith
  moreover have "(of_int k :: real) / 10 ^ d < 0" using False by (simp add: divide_neg_pos)
  ultimately show ?thesis by (simp add: toFixed_neg_eq)
qed

lemma toFixed_Ints: "toFixed d v * 10 ^ d \<in> \<int>"
proof -
  have "sgn v \<in> \<int>" by (simp add: sgn_if)
  then have "sgn v * of_int \<lfloor>\<bar>v\<bar> * 10 ^ d + 1 / 2\<rfloor> \<in> \<int>" by (intro Ints_mult) simp_all
  then show ?thesis by (simp add: toFixed_def)
qed

lemma toFixed_fixed: "x * 10 ^ d \<in> \<int> \<Longrightarrow> toFixed d x = x"
proof -
  assume "x * 10 ^ d \<in> \<int>"
  then obtain k where k: "x * 10 ^ d = of_int k" by (rule Ints_cases)
  then have "x = of_int k / 10 ^ d" by (simp add: field_simps)
  then show ?thesis by (simp add: toFixed_of_int_div)
qed

lemma toFixed_100: "toFixed 1 100 = 100"
  by (simp add: toFixed_def)

lemma toFixed_error_nonneg:
  assumes "0 \<le> v"
  shows "\<bar>toFixed d v - v\<bar> \<le> 1 / (2 * 10 ^ d)"
proof -
  define n where "n = \<lfloor>v * 10 ^ d + 1 / 2\<rfloor>"
  have lo: "of_int n \<le> v * 10 ^ d + 1 / 2" unfolding n_def by (rule of_int_floor_le)
  have hi: "v * 10 ^ d + 1 / 2 < of_int n + 1" unfolding n_def by linarith
  have p: "(0::real) < 10 ^ d" by simp
  have "\<bar>of_int n - v * 10 ^ d\<bar> \<le> 1 / 2" using lo hi by linarith
  then have "\<bar>of_int n - v * 10 ^ d\<bar> / 10 ^ d \<le> (1 / 2) / 10 ^ d"
    using p by (intro divide_right_mono) simp_all
  moreover have "\<bar>of_int n - v * 10 ^ d\<bar> / 10 ^ d = \<bar>of_int n / 10 ^ d - v\<bar>"
  proof -
    have "of_int n / 10 ^ d - v = (of_int n - v * 10 ^ d) / 10 ^ d"
      using p by (simp add: field_simps)
    then show ?thesis using p by (simp add: abs_divide)
  qed
  ultimately show ?thesis using assms by (simp add: toFixed_nonneg_eq n_def)
qed

lemma toFixed_error: "\<bar>toFixed d v - v\<bar> \<le> 1 / (2 * 10 ^ d)"
proof (cases "0 \<le> v")
  case True then show ?thesis by (rule toFixed_error_nonneg)
next
  case False
  then have "\<bar>toFixed d (- v) - (- v)\<bar> \<le> 1 / (2 * 10 ^ d)"
    by (intro toFixed_error_nonneg) simp
  then show ?thesis by (simp add: toFixed_minus abs_minus_commute)
qed

lemma toFixed_error2: "\<bar>toFixed 2 v - v\<bar> < 0.01"
  using toFixed_error[of 2 v] by simp

lemma toFixed_error1: "\<bar>toFixed 1 v - v\<bar> < 0.1"
  using toFixed_error[of 1 v] by simp

lemma toFixed_error0: "\<bar>toFixed 0 v - v\<bar> < 1"
  using toFixed_error[of 0 v] by simp

lemma toFixed2_strict:
  assumes "x + 0.02 \<le> y"
  shows "toFixed 2 x < toFixed 2 y"
proof -
  have "toFixed 2 x - x < 0.01" "y - toFixed 2 y < 0.01"
    using toFixed_error2[of x] toFixed_error2[of y] by linarith+
  then show ?thesis using assms by linarith
qed

section \<open>The tables and the per-vessel call\<close>

lemma targets_cases:
  "complianceTargets y = Some t \<Longrightarrow> t = 0.02 \<or> t = 0.06"
  by (auto simp: complianceTargets_def split: if_splits)

lemma targets_dom: "dom complianceTargets = {2025..2032}"
  by (auto simp: complianceTargets_def)

lemma truthy_target: "complianceTargets y = Some t \<Longrightarrow> truthy (complianceTargets y)"
  by (auto simp: truthy_def dest: targets_cases)

lemma truthy_iff: "truthy (complianceTargets y) \<longleftrightarrow> complianceTargets y \<noteq> None"
proof (cases "complianceTargets y")
  case None then show ?thesis by (simp add: truthy_def)
next
  case (Some t) then show ?thesis using truthy_target[OF Some] by simp
qed

lemma t2025: "complianceTargets 2025 = Some 0.02" by (simp add: complianceTargets_def)

lemma ti2025: "targetIntensityFor 0.02 = 89.3368"
  by (simp add: targetIntensityFor_def referenceGHGIntensity_def)

lemma t2031: "complianceTargets 2031 = Some 0.06" by (simp add: complianceTargets_def)

lemma ti2031: "targetIntensityFor 0.06 = 85.6904"
  by (simp add: targetIntensityFor_def referenceGHGIntensity_def)

lemma p2031: "penaltyRates 2031 = None" by (simp add: penaltyRates_def)

lemma targetIntensity_pos: "complianceTargets y = Some t \<Longrightarrow> 0 < targetIntensityFor t"
  by (auto simp: targetIntensityFor_def referenceGHGIntensity_def dest: targets_cases)

lemma vessel_valid:
  "complianceTargets y = Some t \<Longrightarrow>
   calculateVesselCompliance v y = Inr (vesselOutput y (targetIntensityFor t) v)"
  using truthy_target[of y t] by (simp add: calculateVesselCompliance_def)

lemma vessel_invalid:
  "complianceTargets y = None \<Longrightarrow> calculateVesselCompliance v y = Inl (InvalidYear y)"
  by (simp add: calculateVesselCompliance_def truthy_def)

lemma vessel_Inr:
  "calculateVesselCompliance v y = Inr r \<Longrightarrow>
   \<exists>t. complianceTargets y = Some t \<and> r = vesselOutput y (targetIntensityFor t) v"
proof (cases "complianceTargets y")
  case None
  assume "calculateVesselCompliance v y = Inr r"
  then show ?thesis using vessel_invalid[OF None, of v] by simp
next
  case (Some t)
  assume "calculateVesselCompliance v y = Inr r"
  then show ?thesis using vessel_valid[OF Some, of v] Some by simp
qed

lemma rate_2030: "the (penaltyRates 2030) = 640"
  by (simp add: penaltyRates_def)

lemma rate_fallback: "penaltyRates y = None \<Longrightarrow> penaltyRate y = 640"
  by (simp add: penaltyRate_def truthy_def rate_2030)

lemma beyond_penalty_table:
  "complianceTargets y = Some t \<Longrightarrow> penaltyRates y = None \<Longrightarrow> y = 2031 \<or> y = 2032"
  by (auto simp: complianceTargets_def penaltyRates_def split: if_splits)

lemma out_balance: "complianceBalance (vesselOutput y ti v) = toFixed 2 (complianceBalanceOf ti v)"
  by (simp add: vesselOutput_def)

lemma out_fields:
  "energyDeficit (vesselOutput y ti v) = toFixed 0 (energyDeficitOf ti v)"
  "energySurplus (vesselOutput y ti v) = toFixed 0 (energySurplusOf ti v)"
  "potentialPenalty (vesselOutput y ti v) = toFixed 2 (potentialPenaltyOf y ti v)"
  "vesselResult.status (vesselOutput y ti v) = statusOf ti v"
  "complianceScore (vesselOutput y ti v) = calculateComplianceScore (ghgIntensity v) ti"
  by (simp_all add: vesselOutput_def)

lemma balance_2025_a:
  "complianceBalance (vesselOutput 2025 (targetIntensityFor 0.02)
      \<lparr>fuelConsumption = 45000, ghgIntensity = 89.25, props = Map.empty\<rparr>) = 0"
  unfolding ti2025 out_balance by (simp add: toFixed_def complianceBalanceOf_def deviationOf_def)

lemma balance_2025_b:
  "complianceBalance (vesselOutput 2025 (targetIntensityFor 0.02)
      \<lparr>fuelConsumption = 28000, ghgIntensity = 95.12, props = Map.empty\<rparr>) = - 0.16"
  unfolding ti2025 out_balance by (simp add: toFixed_def complianceBalanceOf_def deviationOf_def)

lemma balance_2025_c:
  "complianceBalance (vesselOutput 2025 (targetIntensityFor 0.02)
      \<lparr>fuelConsumption = 52000, ghgIntensity = 87.55, props = Map.empty\<rparr>) = 0.09"
  unfolding ti2025 out_balance by (simp add: toFixed_def complianceBalanceOf_def deviationOf_def)

lemmas output_eval =
  vesselOutput_def deviationOf_def deviationPercentOf_def complianceBalanceOf_def statusOf_def
  energyDeficitOf_def energySurplusOf_def potentialPenaltyOf_def penaltyRate_def penaltyRates_def
  toFixed_def truthy_def calculateComplianceScore_def bonusBranch_def penaltyBranch_def

section \<open>The compliance score\<close>

lemma score_clamp:
  "0 < t \<Longrightarrow> calculateComplianceScore a t = max 0 (min 100 (100 - (a - t) / t * 100))"
  unfolding calculateComplianceScore_def bonusBranch_def penaltyBranch_def Let_def
  by (auto simp: min_def max_def field_simps)

lemma score_saturated: "0 < t \<Longrightarrow> a \<le> t \<Longrightarrow> calculateComplianceScore a t = 100"
  unfolding calculateComplianceScore_def bonusBranch_def Let_def
  by (simp add: min_def field_simps)

lemma score_deficit_range:
  "0 < t \<Longrightarrow> t < b \<Longrightarrow> 0 \<le> calculateComplianceScore b t \<and> calculateComplianceScore b t < 100"
  unfolding calculateComplianceScore_def penaltyBranch_def Let_def
  by (simp add: max_def field_simps)

lemma score_floored: "0 < t \<Longrightarrow> 2 * t \<le> c \<Longrightarrow> calculateComplianceScore c t = 0"
  unfolding calculateComplianceScore_def penaltyBranch_def Let_def
  by (simp add: max_def field_simps)

lemma score_continuous:
  assumes t: "0 < t"
  shows "continuous_on UNIV (\<lambda>x. calculateComplianceScore x t)"
proof -
  have "(\<lambda>x. calculateComplianceScore x t) = (\<lambda>x. max 0 (min 100 (100 - (x - t) / t * 100)))"
    using score_clamp[OF t] by auto
  moreover have "continuous_on UNIV (\<lambda>x::real. max 0 (min 100 (100 - (x - t) / t * 100)))"
    using t by (intro continuous_intros) auto
  ultimately show ?thesis by (simp only:)
qed

lemma score_mono:
  assumes "0 < t" and "a \<le> b"
  shows "calculateComplianceScore b t \<le> calculateComplianceScore a t"
proof -
  have "(b - t) / t * 100 \<ge> (a - t) / t * 100"
    using assms by (simp add: divide_right_mono)
  then show ?thesis
    unfolding score_clamp[OF assms(1)] by (simp add: max_def min_def)
qed

lemma score_strict:
  assumes "0 < t" and "a < b" and "t < b" and "a < 2 * t"
  shows "calculateComplianceScore b t < calculateComplianceScore a t"
proof -
  have lt: "(a - t) / t * 100 < (b - t) / t * 100"
    using assms(1,2) by (simp add: divide_strict_right_mono)
  have hi: "0 < (b - t) / t * 100" using assms(1,3) by simp
  have lo: "(a - t) / t * 100 < 100" using assms(1,4) by (simp add: field_simps)
  show ?thesis
    unfolding score_clamp[OF assms(1)] using lt hi lo by (simp add: max_def min_def)
qed

text \<open>
  Claim C4. For a positive target intensity \<open>t\<close>: at \<open>actualIntensity = t\<close> the
  bonus branch and the penalty branch both give exactly 100, and the score is
  continuous there (indeed everywhere); for every \<open>a \<le> t\<close> the capped bonus makes
  the score exactly 100; for every \<open>b > t\<close> the score lies in \<open>[0, 100)\<close>; and it is
  floored at 0 once the intensity reaches twice the target.
\<close>

theorem C4_score_boundary:
  assumes "0 < t" and "a \<le> t" and "t < b" and "2 * t \<le> c"
  shows "bonusBranch t t = 100 \<and> penaltyBranch t t = 100
       \<and> calculateComplianceScore t t = 100
       \<and> isCont (\<lambda>x. calculateComplianceScore x t) t
       \<and> calculateComplianceScore a t = 100
       \<and> 0 \<le> calculateComplianceScore b t \<and> calculateComplianceScore b t < 100
       \<and> calculateComplianceScore c t = 0"
proof -
  have "bonusBranch t t = 100" "penaltyBranch t t = 100"
    using assms(1) by (simp_all add: bonusBranch_def penaltyBranch_def)
  moreover have "isCont (\<lambda>x. calculateComplianceScore x t) t"
    using score_continuous[OF assms(1)] by (simp add: continuous_on_eq_continuous_at)
  moreover have "calculateComplianceScore t t = 100"
    using score_saturated[OF assms(1), of t] by simp
  ultimately show ?thesis
    using score_saturated[OF assms(1,2)] score_deficit_range[OF assms(1,3)]
      score_floored[OF assms(1,4)]
    by simp
qed

theorem C4_score_boundary_witness:
  "(0::real) < 89.3368 \<and> (89.25::real) \<le> 89.3368 \<and> (89.3368::real) < 95.12
   \<and> 2 * (89.3368::real) \<le> 200
   \<and> bonusBranch 89.3368 89.3368 = 100 \<and> penaltyBranch 89.3368 89.3368 = 100
   \<and> isCont (\<lambda>x. calculateComplianceScore x 89.3368) 89.3368
   \<and> calculateComplianceScore 89.25 89.3368 = 100
   \<and> 0 \<le> calculateComplianceScore 95.12 89.3368
   \<and> calculateComplianceScore 95.12 89.3368 < 100
   \<and> calculateComplianceScore 200 89.3368 = 0"
  using C4_score_boundary [of "89.3368" "89.25" "95.12" "200"] by simp

section \<open>The energy figures of a vessel\<close>

text \<open>
  Claim C1 (the code departs from it). The claim gives
  \<open>energyDeficit = max(0, fuelConsumption * (ghgIntensity - targetIntensity))\<close> and
  \<open>energySurplus = max(0, fuelConsumption * (targetIntensity - ghgIntensity))\<close>. The
  function computes \<open>energyDeficit\<close> from \<open>deviation * fuelConsumption\<close> with
  \<open>deviation = targetIntensity - ghgIntensity\<close>, and \<open>energySurplus\<close> from its
  negation: the two sides are exchanged. Evaluated on the sample vessel with
  \<open>fuelConsumption = 28000\<close> and \<open>ghgIntensity = 95.12\<close> in 2025, a vessel the same
  call marks \<open>non-compliant\<close>, it returns \<open>energyDeficit = 0\<close> and
  \<open>energySurplus = 161930\<close>, where the claim's formulas give 161929.6 and 0; and
  \<open>calculateBankingBorrowing\<close> then reports banking capacity, and no borrowing
  capacity, for this vessel in deficit.
\<close>

theorem C1_deficit_vessel_evaluation:
  "calculateVesselCompliance
     \<lparr>fuelConsumption = 28000, ghgIntensity = 95.12, props = Map.empty\<rparr> 2025
     = Inr \<lparr>fuelConsumption = 28000, ghgIntensity = 95.12, props = Map.empty,
            vesselResult.complianceYear = 2025, vesselResult.targetIntensity = 89.34,
            deviation = - 5.783, deviationPercent = - 6.47,
            energyDeficit = 0, energySurplus = 161930,
            complianceBalance = - 0.16, potentialPenalty = 0,
            vesselResult.status = ''non-compliant'',
            complianceScore = 100 - 5.7832 / 89.3368 * 100\<rparr>
   \<and> max 0 (28000 * (95.12 - targetIntensityFor 0.02)) = (161929.6 :: real)
   \<and> max 0 (28000 * (targetIntensityFor 0.02 - 95.12)) = (0 :: real)
   \<and> calculateBankingBorrowing
     \<lparr>fuelConsumption = 28000, ghgIntensity = 95.12, props = Map.empty\<rparr> 2025
     = Inr \<lparr>canBank = True, bankingCapacity = 1400, canBorrow = False,
            borrowingCapacity = 0, bankingLimitMJ = 1400, borrowingLimitMJ = 1400\<rparr>"
proof -
  let ?v = "\<lparr>fuelConsumption = 28000, ghgIntensity = 95.12, props = Map.empty\<rparr> :: vessel"
  have c: "calculateVesselCompliance ?v 2025
     = Inr \<lparr>fuelConsumption = 28000, ghgIntensity = 95.12, props = Map.empty,
            vesselResult.complianceYear = 2025, vesselResult.targetIntensity = 89.34,
            deviation = - 5.783, deviationPercent = - 6.47,
            energyDeficit = 0, energySurplus = 161930,
            complianceBalance = - 0.16, potentialPenalty = 0,
            vesselResult.status = ''non-compliant'',
            complianceScore = 100 - 5.7832 / 89.3368 * 100\<rparr>"
    unfolding vessel_valid[OF t2025] ti2025 by (simp add: output_eval)
  have m: "max 0 (28000 * (95.12 - targetIntensityFor 0.02)) = (161929.6 :: real)"
    "max 0 (28000 * (targetIntensityFor 0.02 - 95.12)) = (0 :: real)"
    unfolding ti2025 by simp_all
  have b: "calculateBankingBorrowing ?v 2025
     = Inr \<lparr>canBank = True, bankingCapacity = 1400, canBorrow = False,
            borrowingCapacity = 0, bankingLimitMJ = 1400, borrowingLimitMJ = 1400\<rparr>"
    unfolding calculateBankingBorrowing_def c
    by (simp add: bankingLimit_def borrowingLimit_def toFixed_def)
  show ?thesis using c m b by (simp only: simp_thms)
qed

section \<open>Monotonicity in the intensity\<close>

lemma balance_strict:
  assumes "0 < fuelConsumption v" and "ghgIntensity v < g'"
  shows "complianceBalanceOf ti (v\<lparr>ghgIntensity := g'\<rparr>) < complianceBalanceOf ti v"
  using assms by (simp add: complianceBalanceOf_def deviationOf_def divide_strict_right_mono)

text \<open>
  Claim C5 (as amended). For a vessel with positive fuel consumption and a year
  of the target table, raising \<open>ghgIntensity\<close> never raises the
  \<open>complianceBalance\<close> or the \<open>complianceScore\<close> that \<open>calculateVesselCompliance\<close>
  returns. The returned balance, which is rounded to two decimals, is strictly
  lower once the intensities are at least 0.001 apart and the rise moves
  \<open>deviation * fuelConsumption / 1000000\<close> by at least 0.02. The returned score
  is strictly lower once the intensities are at least 0.001 apart, the higher
  one is at least 0.001 above the target and the lower one at least 0.001 below
  twice the target (the two are then not in the same saturation region at 100
  or at 0). The margins keep the statement away from differences in the last
  binary digit.
\<close>

theorem C5_monotone:
  assumes "complianceTargets y = Some t" and "0 < fuelConsumption v" and "ghgIntensity v < g'"
  shows "\<exists>r r'. calculateVesselCompliance v y = Inr r
          \<and> calculateVesselCompliance (v\<lparr>ghgIntensity := g'\<rparr>) y = Inr r'
          \<and> complianceBalance r' \<le> complianceBalance r
          \<and> complianceScore r' \<le> complianceScore r
          \<and> (ghgIntensity v + 0.001 \<le> g'
               \<and> 0.02 \<le> fuelConsumption v * (g' - ghgIntensity v) / 1000000
               \<longrightarrow> complianceBalance r' < complianceBalance r)
          \<and> (ghgIntensity v + 0.001 \<le> g'
               \<and> targetIntensityFor t + 0.001 \<le> g'
               \<and> ghgIntensity v + 0.001 \<le> 2 * targetIntensityFor t
               \<longrightarrow> complianceScore r' < complianceScore r)"
proof -
  define ti where "ti = targetIntensityFor t"
  define r where "r = vesselOutput y ti v"
  define r' where "r' = vesselOutput y ti (v\<lparr>ghgIntensity := g'\<rparr>)"
  have ti: "0 < ti" unfolding ti_def by (rule targetIntensity_pos[OF assms(1)])
  have b: "complianceBalanceOf ti (v\<lparr>ghgIntensity := g'\<rparr>) < complianceBalanceOf ti v"
    by (rule balance_strict[OF assms(2,3)])
  have gap: "complianceBalanceOf ti v - complianceBalanceOf ti (v\<lparr>ghgIntensity := g'\<rparr>)
      = fuelConsumption v * (g' - ghgIntensity v) / 1000000"
    by (simp add: complianceBalanceOf_def deviationOf_def algebra_simps diff_divide_distrib)
  have c1: "calculateVesselCompliance v y = Inr r"
    unfolding r_def ti_def by (rule vessel_valid[OF assms(1)])
  have c2: "calculateVesselCompliance (v\<lparr>ghgIntensity := g'\<rparr>) y = Inr r'"
    unfolding r'_def ti_def by (rule vessel_valid[OF assms(1)])
  have m: "complianceBalance r' \<le> complianceBalance r"
    unfolding r_def r'_def out_balance using b by (intro toFixed_mono) simp
  have s: "complianceScore r' \<le> complianceScore r"
    unfolding r_def r'_def out_fields using score_mono[OF ti, of "ghgIntensity v" g'] assms(3)
    by simp
  have sb: "ghgIntensity v + 0.001 \<le> g'
               \<and> 0.02 \<le> fuelConsumption v * (g' - ghgIntensity v) / 1000000
               \<longrightarrow> complianceBalance r' < complianceBalance r"
  proof
    assume "ghgIntensity v + 0.001 \<le> g'
               \<and> 0.02 \<le> fuelConsumption v * (g' - ghgIntensity v) / 1000000"
    then have "complianceBalanceOf ti (v\<lparr>ghgIntensity := g'\<rparr>) + 0.02 \<le> complianceBalanceOf ti v"
      using gap by linarith
    then show "complianceBalance r' < complianceBalance r"
      unfolding r_def r'_def out_balance by (rule toFixed2_strict)
  qed
  have st: "ghgIntensity v + 0.001 \<le> g' \<and> ti + 0.001 \<le> g' \<and> ghgIntensity v + 0.001 \<le> 2 * ti
      \<longrightarrow> complianceScore r' < complianceScore r"
  proof
    assume "ghgIntensity v + 0.001 \<le> g' \<and> ti + 0.001 \<le> g' \<and> ghgIntensity v + 0.001 \<le> 2 * ti"
    then have "ti < g'" and "ghgIntensity v < 2 * ti" by auto
    then show "complianceScore r' < complianceScore r"
      unfolding r_def r'_def out_fields using score_strict[OF ti assms(3)] by simp
  qed
  show ?thesis using c1 c2 m s sb st unfolding ti_def by blast
qed

theorem C5_monotone_witness:
  "complianceTargets 2025 = Some 0.02
   \<and> 0 < fuelConsumption \<lparr>fuelConsumption = 45000, ghgIntensity = 90, props = Map.empty\<rparr>
   \<and> ghgIntensity \<lparr>fuelConsumption = 45000, ghgIntensity = 90, props = Map.empty\<rparr> < 95
   \<and> ghgIntensity \<lparr>fuelConsumption = 45000, ghgIntensity = 90, props = Map.empty\<rparr> + 0.001 \<le> 95
   \<and> 0.02 \<le> fuelConsumption \<lparr>fuelConsumption = 45000, ghgIntensity = 90, props = Map.empty\<rparr>
        * (95 - ghgIntensity \<lparr>fuelConsumption = 45000, ghgIntensity = 90, props = Map.empty\<rparr>)
        / 1000000
   \<and> targetIntensityFor 0.02 + 0.001 \<le> 95
   \<and> ghgIntensity \<lparr>fuelConsumption = 45000, ghgIntensity = 90, props = Map.empty\<rparr> + 0.001
        \<le> 2 * targetIntensityFor 0.02
   \<and> (\<exists>r r'. calculateVesselCompliance
                 \<lparr>fuelConsumption = 45000, ghgIntensity = 90, props = Map.empty\<rparr> 2025 = Inr r
          \<and> calculateVesselCompliance
                 \<lparr>fuelConsumption = 45000, ghgIntensity = 95, props = Map.empty\<rparr> 2025 = Inr r'
          \<and> complianceBalance r = - 0.03 \<and> complianceBalance r' = - 0.25
          \<and> complianceBalance r' < complianceBalance r
          \<and> complianceScore r' < complianceScore r)"
proof -
  let ?v = "\<lparr>fuelConsumption = 45000, ghgIntensity = 90, props = Map.empty\<rparr> :: vessel"
  let ?w = "\<lparr>fuelConsumption = 45000, ghgIntensity = 95, props = Map.empty\<rparr> :: vessel"
  have b: "targetIntensityFor 0.02 + 0.001 \<le> 95" "90 + 0.001 \<le> 2 * targetIntensityFor 0.02"
    unfolding ti2025 by simp_all
  obtain r r' where c: "calculateVesselCompliance ?v 2025 = Inr r"
    "calculateVesselCompliance (?v\<lparr>ghgIntensity := 95\<rparr>) 2025 = Inr r'"
    and sb: "ghgIntensity ?v + 0.001 \<le> 95
               \<and> 0.02 \<le> fuelConsumption ?v * (95 - ghgIntensity ?v) / 1000000
               \<longrightarrow> complianceBalance r' < complianceBalance r"
    and st: "ghgIntensity ?v + 0.001 \<le> 95
               \<and> targetIntensityFor 0.02 + 0.001 \<le> 95
               \<and> ghgIntensity ?v + 0.001 \<le> 2 * targetIntensityFor 0.02
               \<longrightarrow> complianceScore r' < complianceScore r"
    using C5_monotone [OF t2025, of ?v 95] by auto
  have e: "r = vesselOutput 2025 (targetIntensityFor 0.02) ?v"
    "r' = vesselOutput 2025 (targetIntensityFor 0.02) ?w"
    using c vessel_valid[OF t2025, of ?v] vessel_valid[OF t2025, of ?w] by simp_all
  have v: "complianceBalance r = - 0.03" "complianceBalance r' = - 0.25"
    unfolding e ti2025 out_balance
    by (simp_all add: toFixed_def complianceBalanceOf_def deviationOf_def)
  have "complianceBalance r' < complianceBalance r" using sb by simp
  moreover have "complianceScore r' < complianceScore r" using st b by simp
  ultimately show ?thesis using c v b t2025 by auto
qed

text \<open>
  The returned balance is not strictly decreasing: at \<open>fuelConsumption = 45000\<close>
  the intensities 89.25 and 89.26 both give \<open>complianceBalance = 0\<close> in 2025.
\<close>

theorem C5_counterexample:
  "calculateVesselCompliance
     \<lparr>fuelConsumption = 45000, ghgIntensity = 89.25, props = Map.empty\<rparr> 2025
     = Inr \<lparr>fuelConsumption = 45000, ghgIntensity = 89.25, props = Map.empty,
            vesselResult.complianceYear = 2025, vesselResult.targetIntensity = 89.34,
            deviation = 0.087, deviationPercent = 0.10,
            energyDeficit = 3906, energySurplus = 0,
            complianceBalance = 0, potentialPenalty = 0,
            vesselResult.status = ''compliant'', complianceScore = 100\<rparr>
   \<and> calculateVesselCompliance
     \<lparr>fuelConsumption = 45000, ghgIntensity = 89.26, props = Map.empty\<rparr> 2025
     = Inr \<lparr>fuelConsumption = 45000, ghgIntensity = 89.26, props = Map.empty,
            vesselResult.complianceYear = 2025, vesselResult.targetIntensity = 89.34,
            deviation = 0.077, deviationPercent = 0.09,
            energyDeficit = 3456, energySurplus = 0,
            complianceBalance = 0, potentialPenalty = 0,
            vesselResult.status = ''compliant'', complianceScore = 100\<rparr>"
  unfolding vessel_valid[OF t2025] ti2025 by (simp add: output_eval)

section \<open>The loop over the vessels\<close>

lemma mapVessels_valid:
  "complianceTargets y = Some t \<Longrightarrow>
   mapVessels y vs acc rs =
     Inr (foldl (\<lambda>a v. accumulate a v (vesselOutput y (targetIntensityFor t) v)) acc vs,
          rs @ map (vesselOutput y (targetIntensityFor t)) vs)"
  by (induction vs arbitrary: acc rs) (simp_all add: vessel_valid)

lemma mapVessels_invalid:
  "complianceTargets y = None \<Longrightarrow> vs \<noteq> [] \<Longrightarrow> mapVessels y vs acc rs = Inl (InvalidYear y)"
  by (cases vs) (simp_all add: vessel_invalid)

lemma acc_fuel:
  "poolAcc.totalEnergyConsumption (foldl (\<lambda>a v. accumulate a v (f v)) acc vs)
     = poolAcc.totalEnergyConsumption acc + (\<Sum>v\<leftarrow>vs. fuelConsumption v)"
  by (induction vs arbitrary: acc) (simp_all add: accumulate_def)

lemma acc_emissions:
  "poolAcc.totalEmissions (foldl (\<lambda>a v. accumulate a v (f v)) acc vs)
     = poolAcc.totalEmissions acc + (\<Sum>v\<leftarrow>vs. fuelConsumption v * ghgIntensity v)"
  by (induction vs arbitrary: acc) (simp_all add: accumulate_def)

lemma acc_energyDeficit:
  "totalEnergyDeficit (foldl (\<lambda>a v. accumulate a v (f v)) acc vs)
     = totalEnergyDeficit acc + (\<Sum>v\<leftarrow>vs. energyDeficit (f v))"
  by (induction vs arbitrary: acc) (simp_all add: accumulate_def)

lemma acc_energySurplus:
  "totalEnergySurplus (foldl (\<lambda>a v. accumulate a v (f v)) acc vs)
     = totalEnergySurplus acc + (\<Sum>v\<leftarrow>vs. energySurplus (f v))"
  by (induction vs arbitrary: acc) (simp_all add: accumulate_def)

lemma acc_balance:
  "totalComplianceBalance (foldl (\<lambda>a v. accumulate a v (f v)) acc vs)
     = totalComplianceBalance acc + (\<Sum>v\<leftarrow>vs. complianceBalance (f v))"
  by (induction vs arbitrary: acc) (simp_all add: accumulate_def)

lemma acc_penalty:
  "poolAcc.totalPotentialPenalty (foldl (\<lambda>a v. accumulate a v (f v)) acc vs)
     = poolAcc.totalPotentialPenalty acc + (\<Sum>v\<leftarrow>vs. potentialPenalty (f v))"
  by (induction vs arbitrary: acc) (simp_all add: accumulate_def)

lemma acc_deficit:
  "totalDeficitFromVessels (foldl (\<lambda>a v. accumulate a v (f v)) acc vs)
     = totalDeficitFromVessels acc
       + (\<Sum>v\<leftarrow>vs. if complianceBalance (f v) < 0 then \<bar>complianceBalance (f v)\<bar> else 0)"
  by (induction vs arbitrary: acc) (simp_all add: accumulate_def)

lemma acc_surplus:
  "totalSurplusFromVessels (foldl (\<lambda>a v. accumulate a v (f v)) acc vs)
     = totalSurplusFromVessels acc
       + (\<Sum>v\<leftarrow>vs. if 0 < complianceBalance (f v) then complianceBalance (f v) else 0)"
  by (induction vs arbitrary: acc) (simp_all add: accumulate_def)

lemma pool_valid:
  "complianceTargets y = Some t \<Longrightarrow> vs \<noteq> [] \<Longrightarrow>
   calculatePoolCompliance vs y =
     Inr (poolOutput (length vs) y
            (foldl (\<lambda>a v. accumulate a v (vesselOutput y (targetIntensityFor t) v)) initialAcc vs)
            (map (vesselOutput y (targetIntensityFor t)) vs))"
  by (simp add: calculatePoolCompliance_def mapVessels_valid)

lemma pool_invalid:
  "complianceTargets y = None \<Longrightarrow> vs \<noteq> [] \<Longrightarrow> calculatePoolCompliance vs y = Inl (InvalidYear y)"
  by (simp add: calculatePoolCompliance_def mapVessels_invalid)

lemma empty_pool: "calculatePoolCompliance [] y = Inr (getEmptyPoolResult y)"
  by (simp add: calculatePoolCompliance_def)

lemma pool_returns:
  "truthy (complianceTargets y) \<Longrightarrow> \<exists>res. calculatePoolCompliance vs y = Inr res"
proof -
  assume "truthy (complianceTargets y)"
  then obtain t where t: "complianceTargets y = Some t" by (auto simp: truthy_iff)
  show ?thesis
  proof (cases "vs = []")
    case True then show ?thesis by (simp add: empty_pool)
  next
    case False then show ?thesis using pool_valid[OF t False] by simp
  qed
qed

lemma pool_Inr:
  "calculatePoolCompliance vs y = Inr res \<Longrightarrow>
   \<exists>ti. vessels res = map (vesselOutput y ti) vs"
proof (cases "vs = []")
  case True
  assume "calculatePoolCompliance vs y = Inr res"
  then have "res = getEmptyPoolResult y" using True by (simp add: empty_pool)
  then have "vessels res = []" by (simp add: getEmptyPoolResult_def Let_def)
  then show ?thesis using True by simp
next
  case ne: False
  assume r: "calculatePoolCompliance vs y = Inr res"
  show ?thesis
  proof (cases "complianceTargets y")
    case None
    then show ?thesis using r pool_invalid[OF None ne] by simp
  next
    case (Some t)
    have "vessels res = map (vesselOutput y (targetIntensityFor t)) vs"
      using r pool_valid[OF Some ne] by (auto simp: poolOutput_def Let_def)
    then show ?thesis by blast
  qed
qed

lemma Ints_sum_list: "(\<And>x. x \<in> set xs \<Longrightarrow> f x * c \<in> \<int>) \<Longrightarrow> (\<Sum>x\<leftarrow>xs. f x) * (c::real) \<in> \<int>"
  by (induction xs) (simp_all add: distrib_right)

lemma sum_list_split_signed:
  "(\<Sum>x\<leftarrow>xs. (f x :: real)) = (\<Sum>x\<leftarrow>xs. if 0 < f x then f x else 0) - (\<Sum>x\<leftarrow>xs. if f x < 0 then \<bar>f x\<bar> else 0)"
  by (induction xs) simp_all

lemma sum_fuel_pos:
  "vs \<noteq> [] \<Longrightarrow> \<forall>v\<in>set vs. 0 < fuelConsumption v \<Longrightarrow> 0 < (\<Sum>v\<leftarrow>vs. fuelConsumption v)"
proof -
  assume ne: "vs \<noteq> []" and pos: "\<forall>v\<in>set vs. 0 < fuelConsumption v"
  obtain v rest where vs: "vs = v # rest" using ne by (cases vs) auto
  have "0 \<le> (\<Sum>v\<leftarrow>rest. fuelConsumption v)"
    using pos vs by (intro sum_list_nonneg) (auto simp: less_imp_le)
  moreover have "0 < fuelConsumption v" using pos vs by simp
  ultimately show ?thesis using vs by simp
qed

lemma sum_balance:
  "(\<Sum>v\<leftarrow>vs. complianceBalanceOf ti v)
     = (ti * (\<Sum>v\<leftarrow>vs. fuelConsumption v) - (\<Sum>v\<leftarrow>vs. fuelConsumption v * ghgIntensity v)) / 1000000"
  by (induction vs) (simp_all add: complianceBalanceOf_def deviationOf_def algebra_simps add_divide_distrib diff_divide_distrib)

lemma pool_aggregates:
  assumes "vs \<noteq> []" and "complianceTargets y = Some t"
  shows "\<exists>res. calculatePoolCompliance vs y = Inr res
     \<and> poolSummary.totalEnergyConsumption (summary res)
         = toFixed 0 (\<Sum>v\<leftarrow>vs. fuelConsumption v)
     \<and> poolSummary.totalEmissions (summary res)
         = toFixed 0 (\<Sum>v\<leftarrow>vs. fuelConsumption v * ghgIntensity v)
     \<and> poolSummary.poolAverageIntensity (summary res)
         = toFixed 2 ((\<Sum>v\<leftarrow>vs. fuelConsumption v * ghgIntensity v) / (\<Sum>v\<leftarrow>vs. fuelConsumption v))
     \<and> poolComplianceBalance (summary res)
         = toFixed 2 (\<Sum>v\<leftarrow>vs. toFixed 2 (complianceBalanceOf (targetIntensityFor t) v))
     \<and> poolComplianceDeficit (summary res)
         = toFixed 2 (\<Sum>v\<leftarrow>vs. if toFixed 2 (complianceBalanceOf (targetIntensityFor t) v) < 0
                           then \<bar>toFixed 2 (complianceBalanceOf (targetIntensityFor t) v)\<bar> else 0)
     \<and> poolComplianceSurplus (summary res)
         = toFixed 2 (\<Sum>v\<leftarrow>vs. if 0 < toFixed 2 (complianceBalanceOf (targetIntensityFor t) v)
                           then toFixed 2 (complianceBalanceOf (targetIntensityFor t) v) else 0)
     \<and> poolSummary.totalPotentialPenalty (summary res)
         = toFixed 2 (\<Sum>v\<leftarrow>vs. toFixed 2 (potentialPenaltyOf y (targetIntensityFor t) v))
     \<and> poolEnergyDeficit (summary res)
         = toFixed 2 ((\<Sum>v\<leftarrow>vs. toFixed 0 (energyDeficitOf (targetIntensityFor t) v)) / 1000000)
     \<and> poolEnergySurplus (summary res)
         = toFixed 2 ((\<Sum>v\<leftarrow>vs. toFixed 0 (energySurplusOf (targetIntensityFor t) v)) / 1000000)
     \<and> poolSummary.poolCompliant (summary res)
         = (0 \<le> (\<Sum>v\<leftarrow>vs. toFixed 2 (complianceBalanceOf (targetIntensityFor t) v)))"
proof -
  define ti where "ti = targetIntensityFor t"
  define out where "out = vesselOutput y ti"
  define acc where "acc = foldl (\<lambda>a v. accumulate a v (out v)) initialAcc vs"
  define res where "res = poolOutput (length vs) y acc (map out vs)"
  have call: "calculatePoolCompliance vs y = Inr res"
    using pool_valid[OF assms(2,1)] by (simp add: res_def acc_def out_def ti_def)
  have ob: "complianceBalance (out v) = toFixed 2 (complianceBalanceOf ti v)" for v
    by (simp add: out_def out_balance)
  have a1: "poolAcc.totalEnergyConsumption acc = (\<Sum>v\<leftarrow>vs. fuelConsumption v)"
    unfolding acc_def acc_fuel by (simp add: initialAcc_def)
  have a2: "poolAcc.totalEmissions acc = (\<Sum>v\<leftarrow>vs. fuelConsumption v * ghgIntensity v)"
    unfolding acc_def acc_emissions by (simp add: initialAcc_def)
  have a3: "totalComplianceBalance acc = (\<Sum>v\<leftarrow>vs. toFixed 2 (complianceBalanceOf ti v))"
    unfolding acc_def acc_balance by (simp add: initialAcc_def out_def out_balance)
  have a4: "totalDeficitFromVessels acc
      = (\<Sum>v\<leftarrow>vs. if toFixed 2 (complianceBalanceOf ti v) < 0
                 then \<bar>toFixed 2 (complianceBalanceOf ti v)\<bar> else 0)"
    unfolding acc_def acc_deficit ob by (simp add: initialAcc_def)
  have a5: "totalSurplusFromVessels acc
      = (\<Sum>v\<leftarrow>vs. if 0 < toFixed 2 (complianceBalanceOf ti v)
                 then toFixed 2 (complianceBalanceOf ti v) else 0)"
    unfolding acc_def acc_surplus ob by (simp add: initialAcc_def)
  have a6: "poolAcc.totalPotentialPenalty acc = (\<Sum>v\<leftarrow>vs. toFixed 2 (potentialPenaltyOf y ti v))"
    unfolding acc_def acc_penalty by (simp add: initialAcc_def out_def out_fields)
  have a7: "totalEnergyDeficit acc = (\<Sum>v\<leftarrow>vs. toFixed 0 (energyDeficitOf ti v))"
    unfolding acc_def acc_energyDeficit by (simp add: initialAcc_def out_def out_fields)
  have a8: "totalEnergySurplus acc = (\<Sum>v\<leftarrow>vs. toFixed 0 (energySurplusOf ti v))"
    unfolding acc_def acc_energySurplus by (simp add: initialAcc_def out_def out_fields)
  have s: "summary res =
     summary (poolOutput (length vs) y acc (map out vs))" by (simp add: res_def)
  have "poolSummary.totalEnergyConsumption (summary res) = toFixed 0 (\<Sum>v\<leftarrow>vs. fuelConsumption v)"
    by (simp add: res_def poolOutput_def Let_def a1)
  moreover have "poolSummary.totalEmissions (summary res)
         = toFixed 0 (\<Sum>v\<leftarrow>vs. fuelConsumption v * ghgIntensity v)"
    by (simp add: res_def poolOutput_def Let_def a2)
  moreover have "poolSummary.poolAverageIntensity (summary res)
         = toFixed 2 ((\<Sum>v\<leftarrow>vs. fuelConsumption v * ghgIntensity v) / (\<Sum>v\<leftarrow>vs. fuelConsumption v))"
    by (simp add: res_def poolOutput_def Let_def poolAverageIntensityOf_def a1 a2)
  moreover have "poolComplianceBalance (summary res)
         = toFixed 2 (\<Sum>v\<leftarrow>vs. toFixed 2 (complianceBalanceOf ti v))"
    by (simp add: res_def poolOutput_def Let_def a3)
  moreover have "poolComplianceDeficit (summary res)
         = toFixed 2 (\<Sum>v\<leftarrow>vs. if toFixed 2 (complianceBalanceOf ti v) < 0
                           then \<bar>toFixed 2 (complianceBalanceOf ti v)\<bar> else 0)"
    by (simp add: res_def poolOutput_def Let_def a4)
  moreover have "poolComplianceSurplus (summary res)
         = toFixed 2 (\<Sum>v\<leftarrow>vs. if 0 < toFixed 2 (complianceBalanceOf ti v)
                           then toFixed 2 (complianceBalanceOf ti v) else 0)"
    by (simp add: res_def poolOutput_def Let_def a5)
  moreover have "poolSummary.totalPotentialPenalty (summary res)
         = toFixed 2 (\<Sum>v\<leftarrow>vs. toFixed 2 (potentialPenaltyOf y ti v))"
    by (simp add: res_def poolOutput_def Let_def a6)
  moreover have "poolEnergyDeficit (summary res)
         = toFixed 2 ((\<Sum>v\<leftarrow>vs. toFixed 0 (energyDeficitOf ti v)) / 1000000)"
    by (simp add: res_def poolOutput_def Let_def a7)
  moreover have "poolEnergySurplus (summary res)
         = toFixed 2 ((\<Sum>v\<leftarrow>vs. toFixed 0 (energySurplusOf ti v)) / 1000000)"
    by (simp add: res_def poolOutput_def Let_def a8)
  moreover have "poolSummary.poolCompliant (summary res)
         = (0 \<le> (\<Sum>v\<leftarrow>vs. toFixed 2 (complianceBalanceOf ti v)))"
    by (simp add: res_def poolOutput_def Let_def poolCompliantOf_def a3)
  ultimately show ?thesis using call unfolding ti_def by blast
qed

lemma pool_locals:
  assumes "vs \<noteq> []" and "complianceTargets y = Some t"
  shows "\<exists>acc res. mapVessels y vs initialAcc [] = Inr (acc, vessels res)
     \<and> calculatePoolCompliance vs y = Inr res
     \<and> poolAverageIntensityOf acc
         = (\<Sum>v\<leftarrow>vs. fuelConsumption v * ghgIntensity v) / (\<Sum>v\<leftarrow>vs. fuelConsumption v)
     \<and> poolComplianceScoreOf acc (targetIntensityFor t)
         = calculateComplianceScore
             ((\<Sum>v\<leftarrow>vs. fuelConsumption v * ghgIntensity v) / (\<Sum>v\<leftarrow>vs. fuelConsumption v))
             (targetIntensityFor t)
     \<and> poolSummary.poolAverageIntensity (summary res) = toFixed 2 (poolAverageIntensityOf acc)
     \<and> poolSummary.poolTargetIntensity (summary res) = toFixed 2 (targetIntensityFor t)
     \<and> poolComplianceScore (summary res)
         = toFixed 1 (poolComplianceScoreOf acc (targetIntensityFor t))"
proof -
  define out where "out = vesselOutput y (targetIntensityFor t)"
  define acc where "acc = foldl (\<lambda>a v. accumulate a v (out v)) initialAcc vs"
  define res where "res = poolOutput (length vs) y acc (map out vs)"
  have loop: "mapVessels y vs initialAcc [] = Inr (acc, vessels res)"
    using mapVessels_valid[OF assms(2), of vs initialAcc "[]"]
    by (simp add: acc_def out_def res_def poolOutput_def Let_def)
  have call: "calculatePoolCompliance vs y = Inr res"
    using pool_valid[OF assms(2,1)] by (simp add: res_def acc_def out_def)
  have avg: "poolAverageIntensityOf acc
         = (\<Sum>v\<leftarrow>vs. fuelConsumption v * ghgIntensity v) / (\<Sum>v\<leftarrow>vs. fuelConsumption v)"
    unfolding poolAverageIntensityOf_def acc_def acc_fuel acc_emissions
    by (simp add: initialAcc_def)
  have sc: "poolComplianceScoreOf acc (targetIntensityFor t)
         = calculateComplianceScore
             ((\<Sum>v\<leftarrow>vs. fuelConsumption v * ghgIntensity v) / (\<Sum>v\<leftarrow>vs. fuelConsumption v))
             (targetIntensityFor t)"
    by (simp add: poolComplianceScoreOf_def avg)
  have o1: "poolSummary.poolAverageIntensity (summary res) = toFixed 2 (poolAverageIntensityOf acc)"
    by (simp add: res_def poolOutput_def Let_def)
  have o2: "poolSummary.poolTargetIntensity (summary res) = toFixed 2 (targetIntensityFor t)"
    by (simp add: res_def poolOutput_def Let_def assms(2))
  have o3: "poolComplianceScore (summary res)
         = toFixed 1 (poolComplianceScoreOf acc (targetIntensityFor t))"
    by (simp add: res_def poolOutput_def Let_def assms(2))
  show ?thesis using loop call avg sc o1 o2 o3 by blast
qed

lemma calls_valid:
  "complianceTargets y = Some t \<Longrightarrow>
   map (\<lambda>v. calculateVesselCompliance v y) vs
     = map Inr (map (vesselOutput y (targetIntensityFor t)) vs)"
  by (simp add: vessel_valid)

lemma results_tie:
  assumes "complianceTargets y = Some t"
    and "map Inr rs = map (\<lambda>v. calculateVesselCompliance v y) vs"
  shows "rs = map (vesselOutput y (targetIntensityFor t)) vs"
proof -
  have "(map Inr rs :: (error + vesselResult) list)
      = map Inr (map (vesselOutput y (targetIntensityFor t)) vs)"
    using assms(2) unfolding calls_valid[OF assms(1)] .
  then show ?thesis by (simp only: inj_map_eq_map[OF inj_Inr])
qed

lemma pool_returned:
  assumes "vs \<noteq> []" and "complianceTargets y = Some t"
  shows "\<exists>res. calculatePoolCompliance vs y = Inr res
     \<and> map Inr (vessels res) = map (\<lambda>v. calculateVesselCompliance v y) vs
     \<and> poolComplianceBalance (summary res) = (\<Sum>r\<leftarrow>vessels res. complianceBalance r)
     \<and> poolComplianceDeficit (summary res)
         = (\<Sum>r\<leftarrow>filter (\<lambda>r. complianceBalance r < 0) (vessels res). \<bar>complianceBalance r\<bar>)
     \<and> poolComplianceSurplus (summary res)
         = (\<Sum>r\<leftarrow>filter (\<lambda>r. 0 < complianceBalance r) (vessels res). complianceBalance r)
     \<and> poolSummary.totalPotentialPenalty (summary res) = (\<Sum>r\<leftarrow>vessels res. potentialPenalty r)
     \<and> poolSummary.poolCompliant (summary res) = (0 \<le> (\<Sum>r\<leftarrow>vessels res. complianceBalance r))
     \<and> poolPotentialPenalty (summary res)
         = (if (\<Sum>r\<leftarrow>vessels res. complianceBalance r) < 0
            then toFixed 2 (\<bar>\<Sum>r\<leftarrow>vessels res. complianceBalance r\<bar> * penaltyRate y / 1000000)
            else 0)
     \<and> \<bar>poolEnergyDeficit (summary res) - (\<Sum>r\<leftarrow>vessels res. energyDeficit r) / 1000000\<bar> < 0.01
     \<and> \<bar>poolEnergySurplus (summary res) - (\<Sum>r\<leftarrow>vessels res. energySurplus r) / 1000000\<bar> < 0.01
     \<and> \<bar>poolSummary.totalEnergyConsumption (summary res) - (\<Sum>v\<leftarrow>vs. fuelConsumption v)\<bar> < 1
     \<and> \<bar>poolSummary.totalEmissions (summary res)
           - (\<Sum>v\<leftarrow>vs. fuelConsumption v * ghgIntensity v)\<bar> < 1"
proof -
  define ti where "ti = targetIntensityFor t"
  define out where "out = vesselOutput y ti"
  define acc where "acc = foldl (\<lambda>a v. accumulate a v (out v)) initialAcc vs"
  define res where "res = poolOutput (length vs) y acc (map out vs)"
  have call: "calculatePoolCompliance vs y = Inr res"
    using pool_valid[OF assms(2,1)] by (simp add: res_def acc_def out_def ti_def)
  have vres: "vessels res = map out vs"
    by (simp add: res_def poolOutput_def Let_def)
  have tie: "map Inr (vessels res) = map (\<lambda>v. calculateVesselCompliance v y) vs"
    unfolding vres out_def ti_def calls_valid[OF assms(2)] ..
  have gridb: "complianceBalance (out v) * 10 ^ 2 \<in> \<int>" for v
    unfolding out_def out_balance by (rule toFixed_Ints)
  have gridp: "potentialPenalty (out v) * 10 ^ 2 \<in> \<int>" for v
    unfolding out_def out_fields by (rule toFixed_Ints)
  have tot: "totalComplianceBalance acc = (\<Sum>v\<leftarrow>vs. complianceBalance (out v))"
    unfolding acc_def acc_balance by (simp add: initialAcc_def)
  have def: "totalDeficitFromVessels acc
      = (\<Sum>v\<leftarrow>vs. if complianceBalance (out v) < 0 then \<bar>complianceBalance (out v)\<bar> else 0)"
    unfolding acc_def acc_deficit by (simp add: initialAcc_def)
  have sur: "totalSurplusFromVessels acc
      = (\<Sum>v\<leftarrow>vs. if 0 < complianceBalance (out v) then complianceBalance (out v) else 0)"
    unfolding acc_def acc_surplus by (simp add: initialAcc_def)
  have pen: "poolAcc.totalPotentialPenalty acc = (\<Sum>v\<leftarrow>vs. potentialPenalty (out v))"
    unfolding acc_def acc_penalty by (simp add: initialAcc_def)
  have edf: "totalEnergyDeficit acc = (\<Sum>v\<leftarrow>vs. energyDeficit (out v))"
    unfolding acc_def acc_energyDeficit by (simp add: initialAcc_def)
  have esp: "totalEnergySurplus acc = (\<Sum>v\<leftarrow>vs. energySurplus (out v))"
    unfolding acc_def acc_energySurplus by (simp add: initialAcc_def)
  have fu: "poolAcc.totalEnergyConsumption acc = (\<Sum>v\<leftarrow>vs. fuelConsumption v)"
    unfolding acc_def acc_fuel by (simp add: initialAcc_def)
  have em: "poolAcc.totalEmissions acc = (\<Sum>v\<leftarrow>vs. fuelConsumption v * ghgIntensity v)"
    unfolding acc_def acc_emissions by (simp add: initialAcc_def)
  have g1: "totalComplianceBalance acc * 10 ^ 2 \<in> \<int>"
    unfolding tot by (rule Ints_sum_list) (rule gridb)
  have g2: "totalDeficitFromVessels acc * 10 ^ 2 \<in> \<int>"
    unfolding def by (rule Ints_sum_list) (use gridb in \<open>auto simp del: power2_eq_square\<close>)
  have g3: "totalSurplusFromVessels acc * 10 ^ 2 \<in> \<int>"
    unfolding sur by (rule Ints_sum_list) (use gridb in auto)
  have g4: "poolAcc.totalPotentialPenalty acc * 10 ^ 2 \<in> \<int>"
    unfolding pen by (rule Ints_sum_list) (rule gridp)
  have f1: "poolComplianceBalance (summary res) = (\<Sum>r\<leftarrow>vessels res. complianceBalance r)"
  proof -
    have "poolComplianceBalance (summary res) = totalComplianceBalance acc"
      by (simp add: res_def poolOutput_def Let_def toFixed_fixed[OF g1])
    then show ?thesis by (simp add: tot vres comp_def)
  qed
  have f2: "poolComplianceDeficit (summary res)
         = (\<Sum>r\<leftarrow>filter (\<lambda>r. complianceBalance r < 0) (vessels res). \<bar>complianceBalance r\<bar>)"
  proof -
    have "poolComplianceDeficit (summary res) = totalDeficitFromVessels acc"
      by (simp add: res_def poolOutput_def Let_def toFixed_fixed[OF g2])
    then show ?thesis by (simp add: def vres comp_def sum_list_map_filter')
  qed
  have f3: "poolComplianceSurplus (summary res)
         = (\<Sum>r\<leftarrow>filter (\<lambda>r. 0 < complianceBalance r) (vessels res). complianceBalance r)"
  proof -
    have "poolComplianceSurplus (summary res) = totalSurplusFromVessels acc"
      by (simp add: res_def poolOutput_def Let_def toFixed_fixed[OF g3])
    then show ?thesis by (simp add: sur vres comp_def sum_list_map_filter')
  qed
  have f4: "poolSummary.totalPotentialPenalty (summary res) = (\<Sum>r\<leftarrow>vessels res. potentialPenalty r)"
  proof -
    have "poolSummary.totalPotentialPenalty (summary res) = poolAcc.totalPotentialPenalty acc"
      by (simp add: res_def poolOutput_def Let_def toFixed_fixed[OF g4])
    then show ?thesis by (simp add: pen vres comp_def)
  qed
  have tot': "totalComplianceBalance acc = (\<Sum>r\<leftarrow>vessels res. complianceBalance r)"
    by (simp add: tot vres comp_def)
  have f5: "poolSummary.poolCompliant (summary res) = (0 \<le> (\<Sum>r\<leftarrow>vessels res. complianceBalance r))"
    unfolding tot'[symmetric] by (simp add: res_def poolOutput_def Let_def poolCompliantOf_def)
  have f6: "poolPotentialPenalty (summary res)
         = (if (\<Sum>r\<leftarrow>vessels res. complianceBalance r) < 0
            then toFixed 2 (\<bar>\<Sum>r\<leftarrow>vessels res. complianceBalance r\<bar> * penaltyRate y / 1000000)
            else 0)"
    unfolding tot'[symmetric] by (simp add: res_def poolOutput_def Let_def)
  have f7: "\<bar>poolEnergyDeficit (summary res) - (\<Sum>r\<leftarrow>vessels res. energyDeficit r) / 1000000\<bar> < 0.01"
  proof -
    have "poolEnergyDeficit (summary res) = toFixed 2 (totalEnergyDeficit acc / 1000000)"
      by (simp add: res_def poolOutput_def Let_def)
    moreover have "totalEnergyDeficit acc = (\<Sum>r\<leftarrow>vessels res. energyDeficit r)"
      by (simp add: edf vres comp_def)
    ultimately show ?thesis
      using toFixed_error2[of "totalEnergyDeficit acc / 1000000"] by (simp only:)
  qed
  have f8: "\<bar>poolEnergySurplus (summary res) - (\<Sum>r\<leftarrow>vessels res. energySurplus r) / 1000000\<bar> < 0.01"
  proof -
    have "poolEnergySurplus (summary res) = toFixed 2 (totalEnergySurplus acc / 1000000)"
      by (simp add: res_def poolOutput_def Let_def)
    moreover have "totalEnergySurplus acc = (\<Sum>r\<leftarrow>vessels res. energySurplus r)"
      by (simp add: esp vres comp_def)
    ultimately show ?thesis
      using toFixed_error2[of "totalEnergySurplus acc / 1000000"] by (simp only:)
  qed
  have f9: "\<bar>poolSummary.totalEnergyConsumption (summary res) - (\<Sum>v\<leftarrow>vs. fuelConsumption v)\<bar> < 1"
  proof -
    have "poolSummary.totalEnergyConsumption (summary res)
        = toFixed 0 (poolAcc.totalEnergyConsumption acc)"
      by (simp add: res_def poolOutput_def Let_def)
    then show ?thesis
      using toFixed_error0[of "poolAcc.totalEnergyConsumption acc"] fu by (simp only:)
  qed
  have f10: "\<bar>poolSummary.totalEmissions (summary res)
           - (\<Sum>v\<leftarrow>vs. fuelConsumption v * ghgIntensity v)\<bar> < 1"
  proof -
    have "poolSummary.totalEmissions (summary res) = toFixed 0 (poolAcc.totalEmissions acc)"
      by (simp add: res_def poolOutput_def Let_def)
    then show ?thesis
      using toFixed_error0[of "poolAcc.totalEmissions acc"] em by (simp only:)
  qed
  show ?thesis using call tie f1 f2 f3 f4 f5 f6 f7 f8 f9 f10 by blast
qed

section \<open>Pool aggregates\<close>

text \<open>
  Claim C2 (as amended). For every non-empty vessel list and every year of the
  target table the call returns, in order, the result object of each vessel's
  own \<open>calculateVesselCompliance\<close> call, and a summary in which
  \<open>totalEnergyConsumption\<close> and \<open>totalEmissions\<close> are the sums of the vessels'
  unrounded inputs, shown as whole numbers. The compliance balance, deficit and
  surplus totals and the total potential penalty are the sums of the
  corresponding properties of those result objects, which are already rounded
  to two decimals; the energy deficit and surplus totals are sums of the
  results' rounded energy figures, shown in millions to two decimals; and
  \<open>poolCompliant\<close> tells whether the sum of the returned balances is positive,
  whenever that sum is not zero.
\<close>

theorem C2_aggregates_from_results:
  assumes "vs \<noteq> []" and "complianceTargets y = Some t"
  shows "\<exists>res. calculatePoolCompliance vs y = Inr res
     \<and> map Inr (vessels res) = map (\<lambda>v. calculateVesselCompliance v y) vs
     \<and> \<bar>poolSummary.totalEnergyConsumption (summary res) - (\<Sum>v\<leftarrow>vs. fuelConsumption v)\<bar> < 1
     \<and> \<bar>poolSummary.totalEmissions (summary res)
           - (\<Sum>v\<leftarrow>vs. fuelConsumption v * ghgIntensity v)\<bar> < 1
     \<and> poolComplianceBalance (summary res) = (\<Sum>r\<leftarrow>vessels res. complianceBalance r)
     \<and> poolComplianceDeficit (summary res)
         = (\<Sum>r\<leftarrow>filter (\<lambda>r. complianceBalance r < 0) (vessels res). \<bar>complianceBalance r\<bar>)
     \<and> poolComplianceSurplus (summary res)
         = (\<Sum>r\<leftarrow>filter (\<lambda>r. 0 < complianceBalance r) (vessels res). complianceBalance r)
     \<and> poolSummary.totalPotentialPenalty (summary res) = (\<Sum>r\<leftarrow>vessels res. potentialPenalty r)
     \<and> \<bar>poolEnergyDeficit (summary res) - (\<Sum>r\<leftarrow>vessels res. energyDeficit r) / 1000000\<bar> < 0.01
     \<and> \<bar>poolEnergySurplus (summary res) - (\<Sum>r\<leftarrow>vessels res. energySurplus r) / 1000000\<bar> < 0.01
     \<and> ((\<Sum>r\<leftarrow>vessels res. complianceBalance r) = 0
          \<or> poolSummary.poolCompliant (summary res) = (0 < (\<Sum>r\<leftarrow>vessels res. complianceBalance r)))"
proof -
  obtain res where r: "calculatePoolCompliance vs y = Inr res
     \<and> map Inr (vessels res) = map (\<lambda>v. calculateVesselCompliance v y) vs
     \<and> \<bar>poolSummary.totalEnergyConsumption (summary res) - (\<Sum>v\<leftarrow>vs. fuelConsumption v)\<bar> < 1
     \<and> \<bar>poolSummary.totalEmissions (summary res)
           - (\<Sum>v\<leftarrow>vs. fuelConsumption v * ghgIntensity v)\<bar> < 1
     \<and> poolComplianceBalance (summary res) = (\<Sum>r\<leftarrow>vessels res. complianceBalance r)
     \<and> poolComplianceDeficit (summary res)
         = (\<Sum>r\<leftarrow>filter (\<lambda>r. complianceBalance r < 0) (vessels res). \<bar>complianceBalance r\<bar>)
     \<and> poolComplianceSurplus (summary res)
         = (\<Sum>r\<leftarrow>filter (\<lambda>r. 0 < complianceBalance r) (vessels res). complianceBalance r)
     \<and> poolSummary.totalPotentialPenalty (summary res) = (\<Sum>r\<leftarrow>vessels res. potentialPenalty r)
     \<and> \<bar>poolEnergyDeficit (summary res) - (\<Sum>r\<leftarrow>vessels res. energyDeficit r) / 1000000\<bar> < 0.01
     \<and> \<bar>poolEnergySurplus (summary res) - (\<Sum>r\<leftarrow>vessels res. energySurplus r) / 1000000\<bar> < 0.01"
    and c: "poolSummary.poolCompliant (summary res) = (0 \<le> (\<Sum>r\<leftarrow>vessels res. complianceBalance r))"
    using pool_returned[OF assms] by blast
  have "(\<Sum>r\<leftarrow>vessels res. complianceBalance r) = 0
          \<or> poolSummary.poolCompliant (summary res) = (0 < (\<Sum>r\<leftarrow>vessels res. complianceBalance r))"
    unfolding c by auto
  then show ?thesis using r by blast
qed

theorem C2_aggregates_from_results_witness:
  "[\<lparr>fuelConsumption = 45000, ghgIntensity = 89.25, props = Map.empty\<rparr>,
    \<lparr>fuelConsumption = 28000, ghgIntensity = 95.12, props = Map.empty\<rparr>] \<noteq> []
   \<and> complianceTargets 2025 = Some 0.02
   \<and> (\<exists>res. calculatePoolCompliance
          [\<lparr>fuelConsumption = 45000, ghgIntensity = 89.25, props = Map.empty\<rparr>,
           \<lparr>fuelConsumption = 28000, ghgIntensity = 95.12, props = Map.empty\<rparr>] 2025 = Inr res
        \<and> map complianceBalance (vessels res) = [0, - 0.16]
        \<and> poolComplianceBalance (summary res) = - 0.16
        \<and> poolComplianceDeficit (summary res) = 0.16
        \<and> poolComplianceSurplus (summary res) = 0
        \<and> \<not> poolSummary.poolCompliant (summary res))"
proof -
  let ?a = "\<lparr>fuelConsumption = 45000, ghgIntensity = 89.25, props = Map.empty\<rparr> :: vessel"
  let ?b = "\<lparr>fuelConsumption = 28000, ghgIntensity = 95.12, props = Map.empty\<rparr> :: vessel"
  obtain res where r: "calculatePoolCompliance [?a, ?b] 2025 = Inr res"
    and t: "map Inr (vessels res) = map (\<lambda>v. calculateVesselCompliance v 2025) [?a, ?b]"
    and b: "poolComplianceBalance (summary res) = (\<Sum>r\<leftarrow>vessels res. complianceBalance r)"
    and d: "poolComplianceDeficit (summary res)
         = (\<Sum>r\<leftarrow>filter (\<lambda>r. complianceBalance r < 0) (vessels res). \<bar>complianceBalance r\<bar>)"
    and s: "poolComplianceSurplus (summary res)
         = (\<Sum>r\<leftarrow>filter (\<lambda>r. 0 < complianceBalance r) (vessels res). complianceBalance r)"
    and c: "(\<Sum>r\<leftarrow>vessels res. complianceBalance r) = 0
          \<or> poolSummary.poolCompliant (summary res) = (0 < (\<Sum>r\<leftarrow>vessels res. complianceBalance r))"
    using C2_aggregates_from_results [OF _ t2025, of "[?a, ?b]"] by blast
  have v: "vessels res = map (vesselOutput 2025 (targetIntensityFor 0.02)) [?a, ?b]"
    by (rule results_tie[OF t2025 t])
  have m: "map complianceBalance (vessels res) = [0, - 0.16]"
    unfolding v using balance_2025_a balance_2025_b by simp
  have e: "poolComplianceBalance (summary res) = - 0.16"
    "poolComplianceDeficit (summary res) = 0.16"
    "poolComplianceSurplus (summary res) = 0"
    unfolding b d s v using balance_2025_a balance_2025_b by simp_all
  have "(\<Sum>r\<leftarrow>vessels res. complianceBalance r) = - 0.16"
    unfolding v using balance_2025_a balance_2025_b by simp
  then have "\<not> poolSummary.poolCompliant (summary res)" using c by simp
  then show ?thesis using r m e t2025 by auto
qed

text \<open>
  The claim as stated fails: for two copies of the sample vessel with
  \<open>fuelConsumption = 45000\<close> and \<open>ghgIntensity = 89.25\<close> the summary has
  \<open>poolComplianceBalance = 0\<close>, while the sum of the two unrounded balances shows
  as 0.01.
\<close>

theorem C2_counterexample:
  "\<not> isl (calculatePoolCompliance
        [\<lparr>fuelConsumption = 45000, ghgIntensity = 89.25, props = Map.empty\<rparr>,
         \<lparr>fuelConsumption = 45000, ghgIntensity = 89.25, props = Map.empty\<rparr>] 2025)
   \<and> poolComplianceBalance (summary (projr (calculatePoolCompliance
        [\<lparr>fuelConsumption = 45000, ghgIntensity = 89.25, props = Map.empty\<rparr>,
         \<lparr>fuelConsumption = 45000, ghgIntensity = 89.25, props = Map.empty\<rparr>] 2025))) = 0
   \<and> toFixed 2
        (complianceBalanceOf (targetIntensityFor 0.02)
           \<lparr>fuelConsumption = 45000, ghgIntensity = 89.25, props = Map.empty\<rparr>
         + complianceBalanceOf (targetIntensityFor 0.02)
           \<lparr>fuelConsumption = 45000, ghgIntensity = 89.25, props = Map.empty\<rparr>) = 0.01"
proof -
  let ?v = "\<lparr>fuelConsumption = 45000, ghgIntensity = 89.25, props = Map.empty\<rparr> :: vessel"
  have t: "complianceTargets 2025 = Some 0.02" by (simp add: complianceTargets_def)
  have b: "toFixed 2 (complianceBalanceOf (targetIntensityFor 0.02) ?v) = 0"
    by (simp add: toFixed_def complianceBalanceOf_def deviationOf_def targetIntensityFor_def
        referenceGHGIntensity_def)
  obtain res where r: "calculatePoolCompliance [?v, ?v] 2025 = Inr res"
    and pb: "poolComplianceBalance (summary res)
         = toFixed 2 (\<Sum>v\<leftarrow>[?v, ?v]. toFixed 2 (complianceBalanceOf (targetIntensityFor 0.02) v))"
    using pool_aggregates[OF _ t, of "[?v, ?v]"] by blast
  have z: "poolComplianceBalance (summary res) = 0"
    unfolding pb using b by (simp add: toFixed_zero)
  have u: "toFixed 2 (complianceBalanceOf (targetIntensityFor 0.02) ?v
         + complianceBalanceOf (targetIntensityFor 0.02) ?v) = 0.01"
    by (simp add: toFixed_def complianceBalanceOf_def deviationOf_def targetIntensityFor_def
        referenceGHGIntensity_def)
  show ?thesis using r z u by simp
qed

text \<open>
  Claim C6. For every non-empty vessel list and every year of the target table
  the call returns, in order, the result object of each vessel's own
  \<open>calculateVesselCompliance\<close> call, and a summary in which
  \<open>poolComplianceBalance\<close> is the signed sum of these results' compliance
  balances, \<open>poolComplianceDeficit\<close> is the sum of \<open>\<bar>complianceBalance\<bar>\<close> over the
  results with a negative balance, \<open>poolComplianceSurplus\<close> is the sum of
  \<open>complianceBalance\<close> over the results with a positive balance (three separate
  running totals), and
  \<open>poolComplianceBalance = poolComplianceSurplus - poolComplianceDeficit\<close>.
\<close>

theorem C6_signed_identity:
  assumes "vs \<noteq> []" and "complianceTargets y = Some t"
  shows "\<exists>res. calculatePoolCompliance vs y = Inr res
     \<and> map Inr (vessels res) = map (\<lambda>v. calculateVesselCompliance v y) vs
     \<and> poolComplianceBalance (summary res) = (\<Sum>r\<leftarrow>vessels res. complianceBalance r)
     \<and> poolComplianceDeficit (summary res)
         = (\<Sum>r\<leftarrow>filter (\<lambda>r. complianceBalance r < 0) (vessels res). \<bar>complianceBalance r\<bar>)
     \<and> poolComplianceSurplus (summary res)
         = (\<Sum>r\<leftarrow>filter (\<lambda>r. 0 < complianceBalance r) (vessels res). complianceBalance r)
     \<and> poolComplianceBalance (summary res)
         = poolComplianceSurplus (summary res) - poolComplianceDeficit (summary res)"
proof -
  obtain res where r: "calculatePoolCompliance vs y = Inr res"
    and t: "map Inr (vessels res) = map (\<lambda>v. calculateVesselCompliance v y) vs"
    and b: "poolComplianceBalance (summary res) = (\<Sum>r\<leftarrow>vessels res. complianceBalance r)"
    and d: "poolComplianceDeficit (summary res)
         = (\<Sum>r\<leftarrow>filter (\<lambda>r. complianceBalance r < 0) (vessels res). \<bar>complianceBalance r\<bar>)"
    and s: "poolComplianceSurplus (summary res)
         = (\<Sum>r\<leftarrow>filter (\<lambda>r. 0 < complianceBalance r) (vessels res). complianceBalance r)"
    using pool_returned[OF assms] by blast
  have "poolComplianceBalance (summary res)
         = poolComplianceSurplus (summary res) - poolComplianceDeficit (summary res)"
    unfolding b d s sum_list_map_filter' by (rule sum_list_split_signed)
  then show ?thesis using r t b d s by blast
qed

theorem C6_signed_identity_witness:
  "[\<lparr>fuelConsumption = 45000, ghgIntensity = 89.25, props = Map.empty\<rparr>,
    \<lparr>fuelConsumption = 28000, ghgIntensity = 95.12, props = Map.empty\<rparr>,
    \<lparr>fuelConsumption = 52000, ghgIntensity = 87.55, props = Map.empty\<rparr>] \<noteq> []
   \<and> complianceTargets 2025 = Some 0.02
   \<and> (\<exists>res. calculatePoolCompliance
          [\<lparr>fuelConsumption = 45000, ghgIntensity = 89.25, props = Map.empty\<rparr>,
           \<lparr>fuelConsumption = 28000, ghgIntensity = 95.12, props = Map.empty\<rparr>,
           \<lparr>fuelConsumption = 52000, ghgIntensity = 87.55, props = Map.empty\<rparr>] 2025 = Inr res
     \<and> map complianceBalance (vessels res) = [0, - 0.16, 0.09]
     \<and> poolComplianceBalance (summary res) = - 0.07
     \<and> poolComplianceDeficit (summary res) = 0.16
     \<and> poolComplianceSurplus (summary res) = 0.09)"
proof -
  let ?a = "\<lparr>fuelConsumption = 45000, ghgIntensity = 89.25, props = Map.empty\<rparr> :: vessel"
  let ?b = "\<lparr>fuelConsumption = 28000, ghgIntensity = 95.12, props = Map.empty\<rparr> :: vessel"
  let ?c = "\<lparr>fuelConsumption = 52000, ghgIntensity = 87.55, props = Map.empty\<rparr> :: vessel"
  obtain res where r: "calculatePoolCompliance [?a, ?b, ?c] 2025 = Inr res"
    and t: "map Inr (vessels res) = map (\<lambda>v. calculateVesselCompliance v 2025) [?a, ?b, ?c]"
    and b: "poolComplianceBalance (summary res) = (\<Sum>r\<leftarrow>vessels res. complianceBalance r)"
    and d: "poolComplianceDeficit (summary res)
         = (\<Sum>r\<leftarrow>filter (\<lambda>r. complianceBalance r < 0) (vessels res). \<bar>complianceBalance r\<bar>)"
    and s: "poolComplianceSurplus (summary res)
         = (\<Sum>r\<leftarrow>filter (\<lambda>r. 0 < complianceBalance r) (vessels res). complianceBalance r)"
    using C6_signed_identity [OF _ t2025, of "[?a, ?b, ?c]"] by blast
  have v: "vessels res = map (vesselOutput 2025 (targetIntensityFor 0.02)) [?a, ?b, ?c]"
    by (rule results_tie[OF t2025 t])
  have m: "map complianceBalance (vessels res) = [0, - 0.16, 0.09]"
    unfolding v using balance_2025_a balance_2025_b balance_2025_c by simp
  have "poolComplianceBalance (summary res) = - 0.07"
    "poolComplianceDeficit (summary res) = 0.16"
    "poolComplianceSurplus (summary res) = 0.09"
    unfolding b d s v using balance_2025_a balance_2025_b balance_2025_c by simp_all
  then show ?thesis using r m t2025 by auto
qed

text \<open>
  Claim C7 (as amended). For every non-empty list of vessels with positive fuel
  consumption and every year of the target table, the pool's average intensity
  is computed after the loop as the fuel-weighted mean
  \<open>sum (fuelConsumption * ghgIntensity) / sum fuelConsumption\<close>, not as the
  arithmetic mean of the intensities, and the pool's score as
  \<open>calculateComplianceScore\<close> of that weighted mean against the unrounded target
  intensity. The summary returns the two rounded, to two decimals and to one:
  \<open>poolAverageIntensity\<close> is within 0.01 of the weighted mean and
  \<open>poolComplianceScore\<close> within 0.1 of that score. The witness is a pool whose
  weighted mean, 95, differs from the arithmetic mean of the intensities, 90.
\<close>

theorem C7_weighted_average:
  assumes "vs \<noteq> []" and "complianceTargets y = Some t"
    and "\<forall>v\<in>set vs. 0 < fuelConsumption v"
  shows "\<exists>acc res. mapVessels y vs initialAcc [] = Inr (acc, vessels res)
     \<and> calculatePoolCompliance vs y = Inr res
     \<and> poolAverageIntensityOf acc
         = (\<Sum>v\<leftarrow>vs. fuelConsumption v * ghgIntensity v) / (\<Sum>v\<leftarrow>vs. fuelConsumption v)
     \<and> poolComplianceScoreOf acc (targetIntensityFor t)
         = calculateComplianceScore
             ((\<Sum>v\<leftarrow>vs. fuelConsumption v * ghgIntensity v) / (\<Sum>v\<leftarrow>vs. fuelConsumption v))
             (targetIntensityFor t)
     \<and> \<bar>poolSummary.poolAverageIntensity (summary res)
          - (\<Sum>v\<leftarrow>vs. fuelConsumption v * ghgIntensity v) / (\<Sum>v\<leftarrow>vs. fuelConsumption v)\<bar> < 0.01
     \<and> \<bar>poolComplianceScore (summary res)
          - calculateComplianceScore
             ((\<Sum>v\<leftarrow>vs. fuelConsumption v * ghgIntensity v) / (\<Sum>v\<leftarrow>vs. fuelConsumption v))
             (targetIntensityFor t)\<bar> < 0.1"
proof -
  obtain acc res where l: "mapVessels y vs initialAcc [] = Inr (acc, vessels res)"
    and r: "calculatePoolCompliance vs y = Inr res"
    and a: "poolAverageIntensityOf acc
         = (\<Sum>v\<leftarrow>vs. fuelConsumption v * ghgIntensity v) / (\<Sum>v\<leftarrow>vs. fuelConsumption v)"
    and s: "poolComplianceScoreOf acc (targetIntensityFor t)
         = calculateComplianceScore
             ((\<Sum>v\<leftarrow>vs. fuelConsumption v * ghgIntensity v) / (\<Sum>v\<leftarrow>vs. fuelConsumption v))
             (targetIntensityFor t)"
    and o1: "poolSummary.poolAverageIntensity (summary res) = toFixed 2 (poolAverageIntensityOf acc)"
    and o3: "poolComplianceScore (summary res)
         = toFixed 1 (poolComplianceScoreOf acc (targetIntensityFor t))"
    using pool_locals[OF assms(1,2)] by blast
  have b1: "\<bar>poolSummary.poolAverageIntensity (summary res)
          - (\<Sum>v\<leftarrow>vs. fuelConsumption v * ghgIntensity v) / (\<Sum>v\<leftarrow>vs. fuelConsumption v)\<bar> < 0.01"
    unfolding o1 a[symmetric] by (rule toFixed_error2)
  have b2: "\<bar>poolComplianceScore (summary res)
          - calculateComplianceScore
             ((\<Sum>v\<leftarrow>vs. fuelConsumption v * ghgIntensity v) / (\<Sum>v\<leftarrow>vs. fuelConsumption v))
             (targetIntensityFor t)\<bar> < 0.1"
    unfolding o3 s[symmetric] by (rule toFixed_error1)
  show ?thesis using l r a s b1 b2 by blast
qed

theorem C7_weighted_average_witness:
  "[\<lparr>fuelConsumption = 1000, ghgIntensity = 80, props = Map.empty\<rparr>,
    \<lparr>fuelConsumption = 3000, ghgIntensity = 100, props = Map.empty\<rparr>] \<noteq> []
   \<and> complianceTargets 2025 = Some 0.02
   \<and> 0 < fuelConsumption \<lparr>fuelConsumption = 1000, ghgIntensity = 80, props = Map.empty\<rparr>
   \<and> 0 < fuelConsumption \<lparr>fuelConsumption = 3000, ghgIntensity = 100, props = Map.empty\<rparr>
   \<and> (\<exists>acc res.
         calculatePoolCompliance
           [\<lparr>fuelConsumption = 1000, ghgIntensity = 80, props = Map.empty\<rparr>,
            \<lparr>fuelConsumption = 3000, ghgIntensity = 100, props = Map.empty\<rparr>] 2025 = Inr res
       \<and> poolAverageIntensityOf acc = 95
       \<and> poolSummary.poolAverageIntensity (summary res) = 95
       \<and> poolComplianceScore (summary res) = 93.7)
   \<and> (80 + 100) / 2 = (90::real)"
proof -
  let ?a = "\<lparr>fuelConsumption = 1000, ghgIntensity = 80, props = Map.empty\<rparr> :: vessel"
  let ?b = "\<lparr>fuelConsumption = 3000, ghgIntensity = 100, props = Map.empty\<rparr> :: vessel"
  have r1: "toFixed 2 95 = 95" by (simp add: toFixed_def)
  have r2: "toFixed 1 (calculateComplianceScore 95 (targetIntensityFor 0.02)) = 93.7"
    by (simp add: toFixed_def calculateComplianceScore_def penaltyBranch_def
        targetIntensityFor_def referenceGHGIntensity_def)
  have pos: "\<forall>v\<in>set [?a, ?b]. 0 < fuelConsumption v" by simp
  have ne: "[?a, ?b] \<noteq> []" by simp
  obtain acc res where l: "mapVessels 2025 [?a, ?b] initialAcc [] = Inr (acc, vessels res)"
    and r: "calculatePoolCompliance [?a, ?b] 2025 = Inr res"
    and a0: "poolAverageIntensityOf acc
         = (\<Sum>v\<leftarrow>[?a, ?b]. fuelConsumption v * ghgIntensity v) / (\<Sum>v\<leftarrow>[?a, ?b]. fuelConsumption v)"
    using C7_weighted_average [OF ne t2025 pos] by (elim exE conjE) (rule that)
  have a: "poolAverageIntensityOf acc = 95" unfolding a0 by simp
  obtain acc' res' where l': "mapVessels 2025 [?a, ?b] initialAcc [] = Inr (acc', vessels res')"
    and r': "calculatePoolCompliance [?a, ?b] 2025 = Inr res'"
    and o1: "poolSummary.poolAverageIntensity (summary res') = toFixed 2 (poolAverageIntensityOf acc')"
    and o3: "poolComplianceScore (summary res')
         = toFixed 1 (poolComplianceScoreOf acc' (targetIntensityFor 0.02))"
    using pool_locals[OF _ t2025, of "[?a, ?b]"] by blast
  have "(Inr res' :: error + poolResult) = Inr res" using r r' by (simp only:)
  moreover have "(Inr (acc', vessels res') :: error + poolAcc \<times> vesselResult list)
      = Inr (acc, vessels res)" using l l' by (simp only:)
  ultimately have same: "res' = res" "acc' = acc" by simp_all
  have p1: "poolSummary.poolAverageIntensity (summary res) = 95"
    using o1 a r1 unfolding same by (simp only:)
  have "poolComplianceScoreOf acc (targetIntensityFor 0.02)
      = calculateComplianceScore 95 (targetIntensityFor 0.02)"
    by (simp only: poolComplianceScoreOf_def a)
  then have p2: "poolComplianceScore (summary res) = 93.7"
    using o3 r2 unfolding same by (simp only:)
  have "\<exists>acc res. calculatePoolCompliance [?a, ?b] 2025 = Inr res
       \<and> poolAverageIntensityOf acc = 95
       \<and> poolSummary.poolAverageIntensity (summary res) = 95
       \<and> poolComplianceScore (summary res) = 93.7"
    using r a p1 p2 by blast
  then show ?thesis using t2025 by simp
qed

text \<open>
  The claim as stated fails on the returned summary: for the first two sample
  vessels the weighted mean is \<open>701945 / 7700\<close> (91.1617 to four decimals) and
  \<open>calculateComplianceScore\<close> of it is below 97.96, while the summary has
  \<open>poolAverageIntensity = 91.16\<close> and \<open>poolComplianceScore = 98\<close>.
\<close>

theorem C7_counterexample:
  "\<not> isl (calculatePoolCompliance
        [\<lparr>fuelConsumption = 45000, ghgIntensity = 89.25, props = Map.empty\<rparr>,
         \<lparr>fuelConsumption = 32000, ghgIntensity = 93.85, props = Map.empty\<rparr>] 2025)
   \<and> poolSummary.poolAverageIntensity (summary (projr (calculatePoolCompliance
        [\<lparr>fuelConsumption = 45000, ghgIntensity = 89.25, props = Map.empty\<rparr>,
         \<lparr>fuelConsumption = 32000, ghgIntensity = 93.85, props = Map.empty\<rparr>] 2025))) = 91.16
   \<and> (45000 * 89.25 + 32000 * 93.85) / (45000 + 32000) = (701945 / 7700 :: real)
   \<and> (701945 / 7700 :: real) \<noteq> 91.16
   \<and> poolComplianceScore (summary (projr (calculatePoolCompliance
        [\<lparr>fuelConsumption = 45000, ghgIntensity = 89.25, props = Map.empty\<rparr>,
         \<lparr>fuelConsumption = 32000, ghgIntensity = 93.85, props = Map.empty\<rparr>] 2025))) = 98
   \<and> calculateComplianceScore (701945 / 7700) (targetIntensityFor 0.02) < 97.96"
proof -
  let ?a = "\<lparr>fuelConsumption = 45000, ghgIntensity = 89.25, props = Map.empty\<rparr> :: vessel"
  let ?b = "\<lparr>fuelConsumption = 32000, ghgIntensity = 93.85, props = Map.empty\<rparr> :: vessel"
  obtain acc res where r: "calculatePoolCompliance [?a, ?b] 2025 = Inr res"
    and a: "poolAverageIntensityOf acc
         = (\<Sum>v\<leftarrow>[?a, ?b]. fuelConsumption v * ghgIntensity v) / (\<Sum>v\<leftarrow>[?a, ?b]. fuelConsumption v)"
    and s: "poolComplianceScoreOf acc (targetIntensityFor 0.02)
         = calculateComplianceScore
             ((\<Sum>v\<leftarrow>[?a, ?b]. fuelConsumption v * ghgIntensity v) / (\<Sum>v\<leftarrow>[?a, ?b]. fuelConsumption v))
             (targetIntensityFor 0.02)"
    and o1: "poolSummary.poolAverageIntensity (summary res) = toFixed 2 (poolAverageIntensityOf acc)"
    and o3: "poolComplianceScore (summary res)
         = toFixed 1 (poolComplianceScoreOf acc (targetIntensityFor 0.02))"
    using pool_locals[OF _ t2025, of "[?a, ?b]"] by blast
  have m: "(\<Sum>v\<leftarrow>[?a, ?b]. fuelConsumption v * ghgIntensity v) / (\<Sum>v\<leftarrow>[?a, ?b]. fuelConsumption v)
      = (701945 / 7700 :: real)" by simp
  have sc: "calculateComplianceScore (701945 / 7700) (targetIntensityFor 0.02)
      = 100 - (701945 / 7700 - 89.3368) / 89.3368 * 100"
    unfolding ti2025 by (simp add: calculateComplianceScore_def penaltyBranch_def)
  have t1: "toFixed 2 (701945 / 7700) = 91.16" by (simp add: toFixed_def)
  have t2: "toFixed 1 (100 - (701945 / 7700 - 89.3368) / 89.3368 * 100) = 98"
    by (simp add: toFixed_def)
  have p1: "poolSummary.poolAverageIntensity (summary res) = 91.16"
    unfolding o1 a m by (rule t1)
  have p2: "poolComplianceScore (summary res) = 98"
    unfolding o3 s m sc by (rule t2)
  have lt: "calculateComplianceScore (701945 / 7700) (targetIntensityFor 0.02) < 97.96"
    unfolding sc by simp
  show ?thesis using r p1 p2 lt by simp
qed

text \<open>
  Claim C8 (as amended). A year that is a key of the target table but not of
  the penalty table is 2031 or 2032; for it the penalty rate is the rate of
  2030, which is 640. For a vessel in deficit the potential penalty is then
  computed as \<open>\<bar>complianceBalance\<bar> * 640 / 1000000\<close> on the unrounded balance, and
  the \<open>potentialPenalty\<close> returned is that value rounded to two decimals, so
  within 0.01 of it. \<open>calculatePoolCompliance\<close> returns the vessels' own results
  and charges a negative sum of their returned balances at the same rate of
  640.
\<close>

theorem C8_penalty_fallback:
  assumes "complianceTargets y = Some t" and "penaltyRates y = None"
    and "complianceBalanceOf (targetIntensityFor t) v < 0" and "vs \<noteq> []"
  shows "(y = 2031 \<or> y = 2032)
     \<and> penaltyRate y = the (penaltyRates 2030) \<and> penaltyRate y = 640
     \<and> potentialPenaltyOf y (targetIntensityFor t) v
         = \<bar>complianceBalanceOf (targetIntensityFor t) v\<bar> * 640 / 1000000
     \<and> (\<exists>r. calculateVesselCompliance v y = Inr r
          \<and> \<bar>potentialPenalty r
               - \<bar>complianceBalanceOf (targetIntensityFor t) v\<bar> * 640 / 1000000\<bar> < 0.01)
     \<and> (\<exists>res. calculatePoolCompliance vs y = Inr res
          \<and> map Inr (vessels res) = map (\<lambda>v. calculateVesselCompliance v y) vs
          \<and> poolPotentialPenalty (summary res)
              = (if (\<Sum>r\<leftarrow>vessels res. complianceBalance r) < 0
                 then toFixed 2 (\<bar>\<Sum>r\<leftarrow>vessels res. complianceBalance r\<bar> * 640 / 1000000)
                 else 0))"
proof -
  define out where "out = vesselOutput y (targetIntensityFor t)"
  have rate: "penaltyRate y = 640" by (rule rate_fallback[OF assms(2)])
  have pen: "potentialPenaltyOf y (targetIntensityFor t) v
         = \<bar>complianceBalanceOf (targetIntensityFor t) v\<bar> * 640 / 1000000"
    using assms(3) rate by (simp add: potentialPenaltyOf_def)
  have v: "calculateVesselCompliance v y = Inr (out v)"
    unfolding out_def by (rule vessel_valid[OF assms(1)])
  have "potentialPenalty (out v)
      = toFixed 2 (\<bar>complianceBalanceOf (targetIntensityFor t) v\<bar> * 640 / 1000000)"
    by (simp add: out_def vesselOutput_def pen)
  then have pv: "\<bar>potentialPenalty (out v)
               - \<bar>complianceBalanceOf (targetIntensityFor t) v\<bar> * 640 / 1000000\<bar> < 0.01"
    using toFixed_error2[of "\<bar>complianceBalanceOf (targetIntensityFor t) v\<bar> * 640 / 1000000"]
    by (simp only:)
  obtain res where r: "calculatePoolCompliance vs y = Inr res"
    and tie: "map Inr (vessels res) = map (\<lambda>v. calculateVesselCompliance v y) vs"
    and pp: "poolPotentialPenalty (summary res)
         = (if (\<Sum>r\<leftarrow>vessels res. complianceBalance r) < 0
            then toFixed 2 (\<bar>\<Sum>r\<leftarrow>vessels res. complianceBalance r\<bar> * penaltyRate y / 1000000)
            else 0)"
    using pool_returned[OF assms(4,1)] by blast
  show ?thesis
    using beyond_penalty_table[OF assms(1,2)] rate rate_2030 pen v pv r tie pp[unfolded rate]
    by auto
qed

theorem C8_penalty_fallback_witness:
  "complianceTargets 2031 = Some 0.06 \<and> penaltyRates 2031 = None
   \<and> complianceBalanceOf (targetIntensityFor 0.06)
        \<lparr>fuelConsumption = 1000000000, ghgIntensity = 95.12, props = Map.empty\<rparr> < 0
   \<and> [\<lparr>fuelConsumption = 1000000000, ghgIntensity = 95.12, props = Map.empty\<rparr>] \<noteq> []
   \<and> penaltyRate 2031 = the (penaltyRates 2030) \<and> penaltyRate 2031 = 640
   \<and> (\<exists>r. calculateVesselCompliance
             \<lparr>fuelConsumption = 1000000000, ghgIntensity = 95.12, props = Map.empty\<rparr> 2031 = Inr r
          \<and> complianceBalance r = - 9429.6 \<and> potentialPenalty r = 6.03)
   \<and> (\<exists>res. calculatePoolCompliance
             [\<lparr>fuelConsumption = 1000000000, ghgIntensity = 95.12, props = Map.empty\<rparr>] 2031 = Inr res
          \<and> map complianceBalance (vessels res) = [- 9429.6]
          \<and> poolPotentialPenalty (summary res) = 6.03)"
proof -
  let ?v = "\<lparr>fuelConsumption = 1000000000, ghgIntensity = 95.12, props = Map.empty\<rparr> :: vessel"
  have h: "complianceBalanceOf (targetIntensityFor 0.06) ?v < 0"
    unfolding ti2031 by (simp add: complianceBalanceOf_def deviationOf_def)
  note C = C8_penalty_fallback [OF t2031 p2031 h, of "[?v]"]
  have rt: "penaltyRate 2031 = 640" using C by simp
  have f: "complianceBalance (vesselOutput 2031 (targetIntensityFor 0.06) ?v) = - 9429.6"
    "potentialPenalty (vesselOutput 2031 (targetIntensityFor 0.06) ?v) = 6.03"
    unfolding out_fields out_balance ti2031
    by (simp_all add: potentialPenaltyOf_def complianceBalanceOf_def deviationOf_def rt toFixed_def)
  have one: "\<exists>r. calculateVesselCompliance ?v 2031 = Inr r
          \<and> complianceBalance r = - 9429.6 \<and> potentialPenalty r = 6.03"
    using vessel_valid[OF t2031, of ?v] f by simp
  obtain res where r: "calculatePoolCompliance [?v] 2031 = Inr res"
    and tie: "map Inr (vessels res) = map (\<lambda>v. calculateVesselCompliance v 2031) [?v]"
    and pp: "poolPotentialPenalty (summary res)
              = (if (\<Sum>r\<leftarrow>vessels res. complianceBalance r) < 0
                 then toFixed 2 (\<bar>\<Sum>r\<leftarrow>vessels res. complianceBalance r\<bar> * 640 / 1000000)
                 else 0)"
    using C by blast
  have vr: "vessels res = map (vesselOutput 2031 (targetIntensityFor 0.06)) [?v]"
    by (rule results_tie[OF t2031 tie])
  have m: "map complianceBalance (vessels res) = [- 9429.6]" unfolding vr using f by simp
  have "poolPotentialPenalty (summary res) = 6.03"
    unfolding pp vr using f by (simp add: toFixed_def)
  then show ?thesis using C one r m t2031 p2031 h by auto
qed

text \<open>
  The claim as stated fails on the returned properties: the sample vessel with
  \<open>fuelConsumption = 28000\<close> and \<open>ghgIntensity = 95.12\<close> is in deficit in 2031 and
  is returned with \<open>complianceBalance = -0.26\<close> and \<open>potentialPenalty = 0\<close>, where
  the formula gives 0.0001664 on the returned balance and 0.000168978432 on
  the unrounded one.
\<close>

theorem C8_counterexample:
  "\<not> isl (calculateVesselCompliance
        \<lparr>fuelConsumption = 28000, ghgIntensity = 95.12, props = Map.empty\<rparr> 2031)
   \<and> vesselResult.status (projr (calculateVesselCompliance
        \<lparr>fuelConsumption = 28000, ghgIntensity = 95.12, props = Map.empty\<rparr> 2031))
       = ''non-compliant''
   \<and> complianceBalance (projr (calculateVesselCompliance
        \<lparr>fuelConsumption = 28000, ghgIntensity = 95.12, props = Map.empty\<rparr> 2031)) = - 0.26
   \<and> potentialPenalty (projr (calculateVesselCompliance
        \<lparr>fuelConsumption = 28000, ghgIntensity = 95.12, props = Map.empty\<rparr> 2031)) = 0
   \<and> \<bar>- 0.26\<bar> * penaltyRate 2031 / 1000000 = (0.0001664 :: real)
   \<and> \<bar>complianceBalanceOf (targetIntensityFor 0.06)
        \<lparr>fuelConsumption = 28000, ghgIntensity = 95.12, props = Map.empty\<rparr>\<bar>
       * penaltyRate 2031 / 1000000 = 0.000168978432"
proof -
  let ?v = "\<lparr>fuelConsumption = 28000, ghgIntensity = 95.12, props = Map.empty\<rparr> :: vessel"
  have c: "calculateVesselCompliance ?v 2031 = Inr (vesselOutput 2031 (targetIntensityFor 0.06) ?v)"
    by (rule vessel_valid[OF t2031])
  have rt: "penaltyRate 2031 = 640" by (rule rate_fallback[OF p2031])
  have f: "vesselResult.status (vesselOutput 2031 (targetIntensityFor 0.06) ?v) = ''non-compliant''"
    "complianceBalance (vesselOutput 2031 (targetIntensityFor 0.06) ?v) = - 0.26"
    "potentialPenalty (vesselOutput 2031 (targetIntensityFor 0.06) ?v) = 0"
    unfolding out_fields out_balance ti2031
    by (simp_all add: statusOf_def potentialPenaltyOf_def complianceBalanceOf_def deviationOf_def
        rt toFixed_def)
  have g: "\<bar>complianceBalanceOf (targetIntensityFor 0.06) ?v\<bar> * penaltyRate 2031 / 1000000
      = 0.000168978432"
    unfolding ti2031 rt by (simp add: complianceBalanceOf_def deviationOf_def)
  have h: "\<bar>- 0.26\<bar> * penaltyRate 2031 / 1000000 = (0.0001664 :: real)"
    unfolding rt by simp
  show ?thesis using f g h unfolding c by simp
qed

section \<open>The empty pool\<close>

text \<open>
  Claim C10 (as amended). For every year of the target table,
  \<open>calculatePoolCompliance\<close> on the empty list returns a summary with
  \<open>poolCompliant = true\<close> and \<open>poolComplianceScore = 0\<close>; the zero is written in
  \<open>getEmptyPoolResult\<close> and is not the value of \<open>calculateComplianceScore\<close>, which
  is 100 on the summary's own average and target intensity. A non-empty pool of
  vessels with positive fuel consumption scores 100 whenever the sum of its
  vessels' unrounded compliance balances is non-negative (its fuel-weighted
  average intensity is then at or below the target).
\<close>

theorem C10_empty_pool_score:
  assumes "complianceTargets y = Some t" and "vs \<noteq> []"
    and "\<forall>v\<in>set vs. 0 < fuelConsumption v"
    and "0 \<le> (\<Sum>v\<leftarrow>vs. complianceBalanceOf (targetIntensityFor t) v)"
  shows "(\<exists>res. calculatePoolCompliance [] y = Inr res
           \<and> poolSummary.poolCompliant (summary res)
           \<and> poolComplianceScore (summary res) = 0
           \<and> calculateComplianceScore (poolSummary.poolAverageIntensity (summary res))
                (poolSummary.poolTargetIntensity (summary res)) = 100)
       \<and> (\<exists>res. calculatePoolCompliance vs y = Inr res
           \<and> poolComplianceScore (summary res) = 100)"
proof -
  define ti where "ti = targetIntensityFor t"
  have ti: "0 < ti" unfolding ti_def by (rule targetIntensity_pos[OF assms(1)])
  have tr: "truthy (complianceTargets y)" by (rule truthy_target[OF assms(1)])
  have e1: "poolSummary.poolCompliant (summary (getEmptyPoolResult y))"
    "poolComplianceScore (summary (getEmptyPoolResult y)) = 0"
    "poolSummary.poolAverageIntensity (summary (getEmptyPoolResult y)) = 0"
    by (simp_all add: getEmptyPoolResult_def Let_def)
  have e2: "poolSummary.poolTargetIntensity (summary (getEmptyPoolResult y)) = ti"
    using tr by (simp add: getEmptyPoolResult_def Let_def assms(1) ti_def targetIntensityFor_def)
  have e3: "calculateComplianceScore 0 ti = 100"
    using score_saturated[OF ti, of 0] ti by simp
  have first: "\<exists>res. calculatePoolCompliance [] y = Inr res
           \<and> poolSummary.poolCompliant (summary res)
           \<and> poolComplianceScore (summary res) = 0
           \<and> calculateComplianceScore (poolSummary.poolAverageIntensity (summary res))
                (poolSummary.poolTargetIntensity (summary res)) = 100"
    using empty_pool[of y] e1 e2 e3 by simp
  define F where "F = (\<Sum>v\<leftarrow>vs. fuelConsumption v)"
  define E where "E = (\<Sum>v\<leftarrow>vs. fuelConsumption v * ghgIntensity v)"
  have F: "0 < F" unfolding F_def by (rule sum_fuel_pos[OF assms(2,3)])
  have "0 \<le> (ti * F - E) / 1000000"
    using assms(4) unfolding sum_balance ti_def F_def E_def .
  then have "E \<le> ti * F" by simp
  then have avg: "E / F \<le> ti" using F by (simp add: pos_divide_le_eq)
  obtain acc res where r: "calculatePoolCompliance vs y = Inr res"
    and a: "poolComplianceScoreOf acc (targetIntensityFor t)
         = calculateComplianceScore (E / F) (targetIntensityFor t)"
    and o: "poolComplianceScore (summary res)
         = toFixed 1 (poolComplianceScoreOf acc (targetIntensityFor t))"
    using pool_locals[OF assms(2,1)] unfolding E_def F_def by blast
  have "poolComplianceScoreOf acc (targetIntensityFor t) = 100"
    using a score_saturated[OF ti avg] by (simp add: ti_def)
  then have "poolComplianceScore (summary res) = 100"
    using o toFixed_100 by (simp only:)
  then show ?thesis using first r by blast
qed

theorem C10_empty_pool_score_witness:
  "complianceTargets 2025 = Some 0.02
   \<and> [\<lparr>fuelConsumption = 52000, ghgIntensity = 87.55, props = Map.empty\<rparr>] \<noteq> []
   \<and> 0 < fuelConsumption \<lparr>fuelConsumption = 52000, ghgIntensity = 87.55, props = Map.empty\<rparr>
   \<and> 0 \<le> complianceBalanceOf (targetIntensityFor 0.02)
            \<lparr>fuelConsumption = 52000, ghgIntensity = 87.55, props = Map.empty\<rparr>
   \<and> (\<exists>res. calculatePoolCompliance [] 2025 = Inr res
           \<and> poolSummary.poolCompliant (summary res)
           \<and> poolComplianceScore (summary res) = 0
           \<and> calculateComplianceScore (poolSummary.poolAverageIntensity (summary res))
                (poolSummary.poolTargetIntensity (summary res)) = 100)
   \<and> (\<exists>res. calculatePoolCompliance
          [\<lparr>fuelConsumption = 52000, ghgIntensity = 87.55, props = Map.empty\<rparr>] 2025 = Inr res
           \<and> poolComplianceScore (summary res) = 100)"
proof -
  have b: "0 \<le> complianceBalanceOf (targetIntensityFor 0.02)
            \<lparr>fuelConsumption = 52000, ghgIntensity = 87.55, props = Map.empty\<rparr>"
    unfolding ti2025 by (simp add: complianceBalanceOf_def deviationOf_def)
  show ?thesis
    using C10_empty_pool_score
      [OF t2025, of "[\<lparr>fuelConsumption = 52000, ghgIntensity = 87.55, props = Map.empty\<rparr>]"]
      b t2025
    by simp
qed

text \<open>
  The claim as stated fails: \<open>poolCompliant\<close> is decided on the sum of the rounded
  balances, so the pool of one vessel with \<open>fuelConsumption = 1000\<close> and
  \<open>ghgIntensity = 90\<close> is flagged compliant in 2025 (its deficit rounds to zero)
  and scores 99.3.
\<close>

theorem C10_counterexample:
  "\<not> isl (calculatePoolCompliance
        [\<lparr>fuelConsumption = 1000, ghgIntensity = 90, props = Map.empty\<rparr>] 2025)
   \<and> poolSummary.poolCompliant (summary (projr (calculatePoolCompliance
        [\<lparr>fuelConsumption = 1000, ghgIntensity = 90, props = Map.empty\<rparr>] 2025)))
   \<and> poolComplianceScore (summary (projr (calculatePoolCompliance
        [\<lparr>fuelConsumption = 1000, ghgIntensity = 90, props = Map.empty\<rparr>] 2025))) = 99.3"
proof -
  let ?v = "\<lparr>fuelConsumption = 1000, ghgIntensity = 90, props = Map.empty\<rparr> :: vessel"
  have t: "complianceTargets 2025 = Some 0.02" by (simp add: complianceTargets_def)
  have b: "toFixed 2 (complianceBalanceOf (targetIntensityFor 0.02) ?v) = 0"
    by (simp add: toFixed_def complianceBalanceOf_def deviationOf_def targetIntensityFor_def
        referenceGHGIntensity_def)
  have sc: "toFixed 1 (calculateComplianceScore 90 (targetIntensityFor 0.02)) = 99.3"
    by (simp add: toFixed_def calculateComplianceScore_def penaltyBranch_def
        targetIntensityFor_def referenceGHGIntensity_def)
  obtain res where r: "calculatePoolCompliance [?v] 2025 = Inr res"
    and pc: "poolSummary.poolCompliant (summary res)
         = (0 \<le> (\<Sum>v\<leftarrow>[?v]. toFixed 2 (complianceBalanceOf (targetIntensityFor 0.02) v)))"
    using pool_aggregates[OF _ t, of "[?v]"] by blast
  obtain acc res' where r': "calculatePoolCompliance [?v] 2025 = Inr res'"
    and a: "poolComplianceScoreOf acc (targetIntensityFor 0.02)
         = calculateComplianceScore
             ((\<Sum>v\<leftarrow>[?v]. fuelConsumption v * ghgIntensity v) / (\<Sum>v\<leftarrow>[?v]. fuelConsumption v))
             (targetIntensityFor 0.02)"
    and o: "poolComplianceScore (summary res')
         = toFixed 1 (poolComplianceScoreOf acc (targetIntensityFor 0.02))"
    using pool_locals[OF _ t, of "[?v]"] by blast
  have same: "res' = res" using r r' by simp
  have c: "poolSummary.poolCompliant (summary res)" unfolding pc using b by simp
  have "poolComplianceScoreOf acc (targetIntensityFor 0.02)
          = calculateComplianceScore 90 (targetIntensityFor 0.02)"
    unfolding a by simp
  then have s: "poolComplianceScore (summary res) = 99.3"
    using o sc same by (simp only:)
  show ?thesis using r c s by simp
qed

section \<open>Invalid years\<close>

lemma suggest_invalid:
  "complianceTargets y = None \<Longrightarrow> suggestImprovements v y = Inl (InvalidYear y)"
  by (simp add: suggestImprovements_def vessel_invalid)

lemma banking_invalid:
  "complianceTargets y = None \<Longrightarrow> calculateBankingBorrowing v y = Inl (InvalidYear y)"
  by (simp add: calculateBankingBorrowing_def vessel_invalid)

lemma trendLoop_returns:
  "\<exists>pts. trendLoop vs y e td = Inr (td @ pts)
        \<and> map trendPoint.year pts = filter (\<lambda>k. complianceTargets k \<noteq> None) [y..e]"
proof (induction vs y e td rule: trendLoop.induct)
  case (1 vs y e td)
  show ?case
  proof (cases "y \<le> e")
    case False
    then show ?thesis by (subst trendLoop.simps) simp
  next
    case le: True
    then have up: "[y..e] = y # [y + 1..e]" by (simp add: upto_rec1)
    show ?thesis
    proof (cases "truthy (complianceTargets y)")
      case False
      then obtain pts where "trendLoop vs (y + 1) e td = Inr (td @ pts)"
        "map trendPoint.year pts = filter (\<lambda>k. complianceTargets k \<noteq> None) [y + 1..e]"
        using 1(2)[OF le] by blast
      moreover have "trendLoop vs y e td = trendLoop vs (y + 1) e td"
        using le False by (subst trendLoop.simps) simp
      ultimately show ?thesis using False up by (simp add: truthy_iff)
    next
      case tr: True
      then obtain res where res: "calculatePoolCompliance vs y = Inr res"
        using pool_returns by blast
      obtain pts where "trendLoop vs (y + 1) e
                  (td @
                   [\<lparr> year = y,
                      complianceRate = poolSummary.complianceRate (summary res),
                      poolCompliant = poolSummary.poolCompliant (summary res),
                      totalPenalty = poolSummary.totalPotentialPenalty (summary res),
                      reductionTarget = poolSummary.reductionTarget (summary res),
                      poolAverageIntensity = poolSummary.poolAverageIntensity (summary res),
                      poolTargetIntensity = poolSummary.poolTargetIntensity (summary res) \<rparr>]) = Inr ((td @
                   [\<lparr> year = y,
                      complianceRate = poolSummary.complianceRate (summary res),
                      poolCompliant = poolSummary.poolCompliant (summary res),
                      totalPenalty = poolSummary.totalPotentialPenalty (summary res),
                      reductionTarget = poolSummary.reductionTarget (summary res),
                      poolAverageIntensity = poolSummary.poolAverageIntensity (summary res),
                      poolTargetIntensity = poolSummary.poolTargetIntensity (summary res) \<rparr>]) @ pts)"
        "map trendPoint.year pts = filter (\<lambda>k. complianceTargets k \<noteq> None) [y + 1..e]"
        using 1(1)[OF le tr res] by blast
      moreover have "trendLoop vs y e td = trendLoop vs (y + 1) e
                  (td @
                   [\<lparr> year = y,
                      complianceRate = poolSummary.complianceRate (summary res),
                      poolCompliant = poolSummary.poolCompliant (summary res),
                      totalPenalty = poolSummary.totalPotentialPenalty (summary res),
                      reductionTarget = poolSummary.reductionTarget (summary res),
                      poolAverageIntensity = poolSummary.poolAverageIntensity (summary res),
                      poolTargetIntensity = poolSummary.poolTargetIntensity (summary res) \<rparr>])"
        using le tr res by (subst trendLoop.simps) simp
      ultimately show ?thesis using tr up by (simp add: truthy_iff)
    qed
  qed
qed

lemma trend_returns:
  "\<exists>pts. calculateComplianceTrend vs a b = Inr pts
        \<and> map trendPoint.year pts = filter (\<lambda>k. complianceTargets k \<noteq> None) [a..b]"
  using trendLoop_returns[of vs a b "[]"] by (simp add: calculateComplianceTrend_def)

lemma empty_pool_fallback:
  "complianceTargets y = None \<Longrightarrow>
   poolSummary.poolTargetIntensity (summary (getEmptyPoolResult y)) = targetIntensityFor 0.02"
  using t2025 by (simp add: getEmptyPoolResult_def truthy_def targetIntensityFor_def)

text \<open>
  Claim C3 (as amended). For a year that is not a key of the target table,
  \<open>calculateVesselCompliance\<close>, \<open>calculatePoolCompliance\<close> on a non-empty list,
  \<open>suggestImprovements\<close> and \<open>calculateBankingBorrowing\<close> signal \<open>InvalidYear\<close> and
  return nothing. \<open>calculatePoolCompliance\<close> on the empty list does not fail: it
  returns the empty-pool result, whose target intensity is computed from the
  target of 2025. \<open>calculateComplianceTrend\<close> never fails: it returns one point for
  each year of its range that is a key of the table, in order, and so the empty
  trend when the range holds no such year.
\<close>

theorem C3_invalid_year:
  assumes "complianceTargets y = None" and "vs \<noteq> []"
  shows "calculateVesselCompliance v y = Inl (InvalidYear y)
     \<and> calculatePoolCompliance vs y = Inl (InvalidYear y)
     \<and> suggestImprovements v y = Inl (InvalidYear y)
     \<and> calculateBankingBorrowing v y = Inl (InvalidYear y)
     \<and> calculatePoolCompliance [] y = Inr (getEmptyPoolResult y)
     \<and> poolSummary.poolTargetIntensity (summary (getEmptyPoolResult y)) = targetIntensityFor 0.02
     \<and> calculateComplianceTrend ws y y = Inr []
     \<and> (\<exists>pts. calculateComplianceTrend ws a b = Inr pts
           \<and> map trendPoint.year pts = filter (\<lambda>k. complianceTargets k \<noteq> None) [a..b])"
proof -
  obtain pts where "calculateComplianceTrend ws y y = Inr pts"
    "map trendPoint.year pts = filter (\<lambda>k. complianceTargets k \<noteq> None) [y..y]"
    using trend_returns by blast
  then have "calculateComplianceTrend ws y y = Inr []" using assms(1) by simp
  then show ?thesis
    using vessel_invalid[OF assms(1)] pool_invalid[OF assms] suggest_invalid[OF assms(1)]
      banking_invalid[OF assms(1)] empty_pool empty_pool_fallback[OF assms(1)] trend_returns
    by simp
qed

theorem C3_invalid_year_witness:
  "complianceTargets 1999 = None
   \<and> [\<lparr>fuelConsumption = 45000, ghgIntensity = 89.25, props = Map.empty\<rparr>] \<noteq> []
   \<and> calculateVesselCompliance
        \<lparr>fuelConsumption = 45000, ghgIntensity = 89.25, props = Map.empty\<rparr> 1999
       = Inl (InvalidYear 1999)
   \<and> calculatePoolCompliance
        [\<lparr>fuelConsumption = 45000, ghgIntensity = 89.25, props = Map.empty\<rparr>] 1999
       = Inl (InvalidYear 1999)
   \<and> suggestImprovements
        \<lparr>fuelConsumption = 45000, ghgIntensity = 89.25, props = Map.empty\<rparr> 1999
       = Inl (InvalidYear 1999)
   \<and> calculateBankingBorrowing
        \<lparr>fuelConsumption = 45000, ghgIntensity = 89.25, props = Map.empty\<rparr> 1999
       = Inl (InvalidYear 1999)
   \<and> calculatePoolCompliance [] 1999 = Inr (getEmptyPoolResult 1999)
   \<and> (\<exists>pts. calculateComplianceTrend
          [\<lparr>fuelConsumption = 45000, ghgIntensity = 89.25, props = Map.empty\<rparr>] 2024 2026 = Inr pts
        \<and> map trendPoint.year pts = [2025, 2026])"
proof -
  have n: "complianceTargets 1999 = None" by (simp add: complianceTargets_def)
  have d: "(complianceTargets k \<noteq> None) = (2025 \<le> k \<and> k \<le> 2032)" for k
    using targets_dom by (auto simp: dom_def)
  have f: "filter (\<lambda>k. complianceTargets k \<noteq> None) [2024..2026] = [2025, 2026]"
    unfolding d by (simp add: upto_rec1)
  show ?thesis
    using C3_invalid_year [OF n, of "[\<lparr>fuelConsumption = 45000, ghgIntensity = 89.25, props = Map.empty\<rparr>]"
        "\<lparr>fuelConsumption = 45000, ghgIntensity = 89.25, props = Map.empty\<rparr>"
        "[\<lparr>fuelConsumption = 45000, ghgIntensity = 89.25, props = Map.empty\<rparr>]" 2024 2026]
      n f by simp
qed

text \<open>
  The claim as stated fails at 1999: the empty pool is answered with a result
  (target intensity 89.3368, from the 2025 target), and the trend over 1999
  alone is the empty list.
\<close>

theorem C3_counterexample:
  "complianceTargets 1999 = None
   \<and> calculatePoolCompliance [] 1999 = Inr (getEmptyPoolResult 1999)
   \<and> poolSummary.poolTargetIntensity (summary (getEmptyPoolResult 1999)) = 89.3368
   \<and> calculateComplianceTrend
        [\<lparr>fuelConsumption = 45000, ghgIntensity = 89.25, props = Map.empty\<rparr>] 1999 1999 = Inr []"
proof -
  have n: "complianceTargets 1999 = None" by (simp add: complianceTargets_def)
  obtain pts where "calculateComplianceTrend
        [\<lparr>fuelConsumption = 45000, ghgIntensity = 89.25, props = Map.empty\<rparr>] 1999 1999 = Inr pts"
    "map trendPoint.year pts = filter (\<lambda>k. complianceTargets k \<noteq> None) [1999..1999]"
    using trend_returns by blast
  then have "calculateComplianceTrend
        [\<lparr>fuelConsumption = 45000, ghgIntensity = 89.25, props = Map.empty\<rparr>] 1999 1999 = Inr []"
    using n by simp
  then show ?thesis
    using n empty_pool[of 1999] empty_pool_fallback[OF n] ti2025 by simp
qed

section \<open>Input objects\<close>

lemma readVessel_props: "readVessel obj = Some v \<Longrightarrow> props v = obj"
  by (auto simp: readVessel_def split: option.splits jsval.splits)

lemma resultObject_passthrough:
  "resultObject r |` (- computedKeys) = props r |` (- computedKeys)"
  by (rule ext) (auto simp: restrict_map_def resultObject_def computedKeys_def)

lemma vesselOutput_props: "props (vesselOutput y ti v) = props v |` (- computedKeys)"
  by (simp add: vesselOutput_def)

lemma result_passthrough:
  "readVessel obj = Some v \<Longrightarrow>
   resultObject (vesselOutput y ti v) |` (- computedKeys) = obj |` (- computedKeys)"
  by (simp add: resultObject_passthrough vesselOutput_props readVessel_props)

lemma readVessels_Some:
  "readVessels h refs = Some vs \<Longrightarrow>
   length vs = length refs \<and> (\<forall>i<length refs. readVessel (h ! (refs ! i)) = Some (vs ! i))"
  by (auto simp: readVessels_def list_all_length split: if_splits)

lemma five_keys: "{''name'', ''imo'', ''type'', ''pool'', ''owner''} \<inter> computedKeys = {}"
  by (simp add: computedKeys_def)

lemma restrict_eq_at: "m |` (- K) = n |` (- K) \<Longrightarrow> k \<notin> K \<Longrightarrow> m k = n k"
  by (metis ComplI restrict_in)

text \<open>
  Claim C9. A call of \<open>calculateVesselCompliance\<close> or \<open>calculatePoolCompliance\<close>
  leaves every object that existed before the call as it was: the heap after
  the call is the heap before it, followed by the freshly allocated result
  objects (none when the call fails). Each result object agrees with its input
  vessel on every property whose name is not one of the ten computed
  properties; \<open>name\<close>, \<open>imo\<close>, \<open>type\<close>, \<open>pool\<close> and \<open>owner\<close> are not among these.
  (A vessel's own property with a computed name, such as a stored \<open>status\<close>, is
  replaced in the result by the computed one; the witness shows this on a
  sample vessel.)
\<close>

theorem C9_inputs_unchanged:
  assumes "calculateVesselCompliance_heap h ref y = Some (out, h')"
    and "calculatePoolCompliance_heap h refs y = Some (pout, h'')"
  shows "take (length h) h' = h
     \<and> (case out of
           Inl e \<Rightarrow> h' = h
         | Inr new \<Rightarrow> new = length h \<and> length h' = Suc (length h)
             \<and> (h' ! new) |` (- computedKeys) = (h ! ref) |` (- computedKeys))
     \<and> take (length h) h'' = h
     \<and> (case pout of
           Inl e \<Rightarrow> h'' = h
         | Inr (news, s) \<Rightarrow>
             map (\<lambda>a. (h'' ! a) |` (- computedKeys)) news
               = map (\<lambda>r. (h ! r) |` (- computedKeys)) refs)
     \<and> {''name'', ''imo'', ''type'', ''pool'', ''owner''} \<inter> computedKeys = {}"
proof -
  have one: "take (length h) h' = h
     \<and> (case out of
           Inl e \<Rightarrow> h' = h
         | Inr new \<Rightarrow> new = length h \<and> length h' = Suc (length h)
             \<and> (h' ! new) |` (- computedKeys) = (h ! ref) |` (- computedKeys))"
  proof -
    from assms(1) obtain v where lt: "ref < length h" and rv: "readVessel (h ! ref) = Some v"
      by (auto simp: calculateVesselCompliance_heap_def split: if_splits option.splits)
    show ?thesis
    proof (cases "calculateVesselCompliance v y")
      case (Inl e)
      then show ?thesis using assms(1) lt rv
        by (auto simp: calculateVesselCompliance_heap_def)
    next
      case (Inr r)
      then obtain t where r: "r = vesselOutput y (targetIntensityFor t) v"
        using vessel_Inr by blast
      have "out = Inr (length h)" "h' = h @ [resultObject r]"
        using assms(1) lt rv Inr by (auto simp: calculateVesselCompliance_heap_def)
      then show ?thesis using result_passthrough[OF rv] r by simp
    qed
  qed
  have two: "take (length h) h'' = h
     \<and> (case pout of
           Inl e \<Rightarrow> h'' = h
         | Inr (news, s) \<Rightarrow>
             map (\<lambda>a. (h'' ! a) |` (- computedKeys)) news
               = map (\<lambda>r. (h ! r) |` (- computedKeys)) refs)"
  proof -
    from assms(2) obtain vs where rv: "readVessels h refs = Some vs"
      by (auto simp: calculatePoolCompliance_heap_def split: option.splits)
    note rd = readVessels_Some[OF rv]
    show ?thesis
    proof (cases "calculatePoolCompliance vs y")
      case (Inl e)
      then show ?thesis using assms(2) rv by (auto simp: calculatePoolCompliance_heap_def)
    next
      case (Inr res)
      then obtain ti where vr: "vessels res = map (vesselOutput y ti) vs"
        using pool_Inr by blast
      have po: "pout = Inr ([length h ..< length h + length vs], summary res)"
        and h'': "h'' = h @ map resultObject (vessels res)"
        using assms(2) rv Inr vr by (auto simp: calculatePoolCompliance_heap_def)
      have "map (\<lambda>a. (h'' ! a) |` (- computedKeys)) [length h ..< length h + length vs]
               = map (\<lambda>r. (h ! r) |` (- computedKeys)) refs"
      proof (rule nth_equalityI)
        show "length (map (\<lambda>a. (h'' ! a) |` (- computedKeys)) [length h ..< length h + length vs])
            = length (map (\<lambda>r. (h ! r) |` (- computedKeys)) refs)"
          using rd by simp
      next
        fix i
        assume "i < length (map (\<lambda>a. (h'' ! a) |` (- computedKeys)) [length h ..< length h + length vs])"
        then have i: "i < length vs" by simp
        then have ir: "i < length refs" using rd by simp
        have "h'' ! (length h + i) = resultObject (vesselOutput y ti (vs ! i))"
          using i by (simp add: h'' vr nth_append)
        moreover have "readVessel (h ! (refs ! i)) = Some (vs ! i)" using rd ir by blast
        ultimately have "(h'' ! (length h + i)) |` (- computedKeys) = (h ! (refs ! i)) |` (- computedKeys)"
          using result_passthrough by simp
        then show "map (\<lambda>a. (h'' ! a) |` (- computedKeys)) [length h ..< length h + length vs] ! i
            = map (\<lambda>r. (h ! r) |` (- computedKeys)) refs ! i"
          using i ir by simp
      qed
      then show ?thesis using po h'' by simp
    qed
  qed
  show ?thesis using one two five_keys by simp
qed

theorem C9_inputs_unchanged_witness:
  "\<exists>out h' pout h''.
      calculateVesselCompliance_heap [nordicCarrier] 0 2025 = Some (out, h')
    \<and> calculatePoolCompliance_heap [nordicCarrier] [0] 2025 = Some (pout, h'')
    \<and> out = Inr 1 \<and> map_sum id fst pout = Inr [1]
    \<and> take 1 h' = [nordicCarrier] \<and> take 1 h'' = [nordicCarrier]
    \<and> length h' = 2
    \<and> (h' ! 1) |` (- computedKeys) = nordicCarrier |` (- computedKeys)
    \<and> [(h'' ! 1) |` (- computedKeys)] = [nordicCarrier |` (- computedKeys)]
    \<and> (h' ! 1) ''name'' = Some (JStr ''Nordic Carrier'')
    \<and> (h' ! 1) ''status'' = Some (JStr ''non-compliant'')
    \<and> nordicCarrier ''status'' = Some (JStr ''at-risk'')"
proof -
  let ?v = "\<lparr>fuelConsumption = 32000, ghgIntensity = 93.85, props = nordicCarrier\<rparr> :: vessel"
  let ?r = "vesselOutput 2025 (targetIntensityFor 0.02) ?v"
  have rv: "readVessel nordicCarrier = Some ?v"
    by (simp add: readVessel_def nordicCarrier_def)
  have c: "calculateVesselCompliance ?v 2025 = Inr ?r" by (rule vessel_valid[OF t2025])
  have h1: "calculateVesselCompliance_heap [nordicCarrier] 0 2025
      = Some (Inr 1, [nordicCarrier, resultObject ?r])"
    using rv c by (simp add: calculateVesselCompliance_heap_def)
  obtain res where p: "calculatePoolCompliance [?v] 2025 = Inr res"
    using pool_returns[OF truthy_target[OF t2025]] by blast
  then obtain ti where vr: "vessels res = [vesselOutput 2025 ti ?v]"
    using pool_Inr by fastforce
  have h2: "calculatePoolCompliance_heap [nordicCarrier] [0] 2025
      = Some (Inr ([1], summary res), [nordicCarrier] @ map resultObject (vessels res))"
    using rv p vr by (simp add: calculatePoolCompliance_heap_def readVessels_def)
  have nm: "''name'' \<notin> computedKeys" by (simp add: computedKeys_def)
  have st: "resultObject ?r ''status'' = Some (JStr ''non-compliant'')"
    unfolding ti2025
    by (simp add: resultObject_def vesselOutput_def statusOf_def complianceBalanceOf_def
        deviationOf_def)
  have s0: "nordicCarrier ''status'' = Some (JStr ''at-risk'')"
    "nordicCarrier ''name'' = Some (JStr ''Nordic Carrier'')"
    by (simp_all add: nordicCarrier_def)
  note C = C9_inputs_unchanged [OF h1 h2]
  have e: "([nordicCarrier, resultObject ?r] ! 1) |` (- computedKeys) = nordicCarrier |` (- computedKeys)"
    using C by simp
  have n1: "([nordicCarrier, resultObject ?r] ! 1) ''name'' = Some (JStr ''Nordic Carrier'')"
    using restrict_eq_at[OF e nm] s0 by simp
  show ?thesis
    using h1 h2 C n1 st s0 by (simp add: vr)
qed

end
